theory Spec2Isabelle
  imports Complex_Main
begin

section \<open>Data model\<close>

text \<open>
  The program is one JavaScript file, \<^verbatim>\<open>src/index.js\<close>. The values it handles come out
  of the metadata provider's JSON, and its numbers are IEEE doubles. \<^verbatim>\<open>JSON.parse\<close>
  delivers a finite double or, for a literal beyond the range (\<^verbatim>\<open>1e400\<close>), an infinity:
  an \<open>extended\<close> value. Arithmetic can overflow to an infinity and can yield NaN: a
  \<open>number\<close>. Two things are left out: the rounding of a finite result to the nearest
  double, and the sign of a zero (the program divides by 10 and by a popularity that
  its guard has found non-zero, and nowhere else).
\<close>

datatype extended = NegInf | Fin real | PosInf

datatype number = NaN | Val extended

text \<open>
  A numeric field of a provider item: the property is absent (reading it gives
  \<^verbatim>\<open>undefined\<close>), it is an explicit \<^verbatim>\<open>null\<close>, or it is a number that JSON can carry.
  Text fields are \<open>string option\<close>, with \<open>None\<close> for an absent or null property.
  A property that holds a value of another JSON type than the provider documents (a text
  where a number is expected, say) is not modelled.
\<close>

datatype jsval = Undefined | Null | Num extended

text \<open>The order of the doubles, infinities included.\<close>

fun ext_le :: "extended \<Rightarrow> extended \<Rightarrow> bool" where
  "ext_le NegInf y = True"
| "ext_le (Fin a) NegInf = False"
| "ext_le (Fin a) (Fin b) = (a \<le> b)"
| "ext_le (Fin a) PosInf = True"
| "ext_le PosInf NegInf = False"
| "ext_le PosInf (Fin b) = False"
| "ext_le PosInf PosInf = True"

text \<open>The operator \<^verbatim>\<open>a <= b\<close> on numbers: false as soon as one side is NaN.\<close>

fun num_le :: "number \<Rightarrow> number \<Rightarrow> bool" where
  "num_le (Val a) (Val b) = ext_le a b"
| "num_le NaN y = False"
| "num_le (Val a) NaN = False"

text \<open>
  The largest finite double, \<^verbatim>\<open>2^1024 - 2^971\<close>, and the overflow of an exact result
  beyond it.
\<close>

definition max_double :: real where
  "max_double = 2 ^ 1024 - 2 ^ 971"

definition overflow :: "real \<Rightarrow> extended" where
  "overflow x =
     (if max_double < x then PosInf else if x < - max_double then NegInf else Fin x)"

text \<open>The operators \<^verbatim>\<open>/\<close>, \<^verbatim>\<open>*\<close>, \<^verbatim>\<open>+\<close> and \<^verbatim>\<open>-\<close>, and \<^verbatim>\<open>Math.min\<close>.\<close>

fun ext_div :: "extended \<Rightarrow> extended \<Rightarrow> number" where
  "ext_div (Fin a) (Fin b) =
     (if b = 0 then (if a = 0 then NaN else if 0 < a then Val PosInf else Val NegInf)
      else Val (overflow (a / b)))"
| "ext_div (Fin a) PosInf = Val (Fin 0)"
| "ext_div (Fin a) NegInf = Val (Fin 0)"
| "ext_div PosInf (Fin b) = (if 0 \<le> b then Val PosInf else Val NegInf)"
| "ext_div NegInf (Fin b) = (if 0 \<le> b then Val NegInf else Val PosInf)"
| "ext_div PosInf PosInf = NaN"
| "ext_div PosInf NegInf = NaN"
| "ext_div NegInf PosInf = NaN"
| "ext_div NegInf NegInf = NaN"

fun js_div :: "number \<Rightarrow> number \<Rightarrow> number" where
  "js_div (Val a) (Val b) = ext_div a b"
| "js_div NaN y = NaN"
| "js_div (Val a) NaN = NaN"

fun ext_mul :: "extended \<Rightarrow> extended \<Rightarrow> number" where
  "ext_mul (Fin a) (Fin b) = Val (overflow (a * b))"
| "ext_mul (Fin a) PosInf = (if a = 0 then NaN else if 0 < a then Val PosInf else Val NegInf)"
| "ext_mul (Fin a) NegInf = (if a = 0 then NaN else if 0 < a then Val NegInf else Val PosInf)"
| "ext_mul PosInf (Fin b) = (if b = 0 then NaN else if 0 < b then Val PosInf else Val NegInf)"
| "ext_mul NegInf (Fin b) = (if b = 0 then NaN else if 0 < b then Val NegInf else Val PosInf)"
| "ext_mul PosInf PosInf = Val PosInf"
| "ext_mul PosInf NegInf = Val NegInf"
| "ext_mul NegInf PosInf = Val NegInf"
| "ext_mul NegInf NegInf = Val PosInf"

fun js_mul :: "number \<Rightarrow> number \<Rightarrow> number" where
  "js_mul (Val a) (Val b) = ext_mul a b"
| "js_mul NaN y = NaN"
| "js_mul (Val a) NaN = NaN"

fun ext_add :: "extended \<Rightarrow> extended \<Rightarrow> number" where
  "ext_add (Fin a) (Fin b) = Val (overflow (a + b))"
| "ext_add (Fin a) PosInf = Val PosInf"
| "ext_add (Fin a) NegInf = Val NegInf"
| "ext_add PosInf (Fin b) = Val PosInf"
| "ext_add NegInf (Fin b) = Val NegInf"
| "ext_add PosInf PosInf = Val PosInf"
| "ext_add NegInf NegInf = Val NegInf"
| "ext_add PosInf NegInf = NaN"
| "ext_add NegInf PosInf = NaN"

fun js_add :: "number \<Rightarrow> number \<Rightarrow> number" where
  "js_add (Val a) (Val b) = ext_add a b"
| "js_add NaN y = NaN"
| "js_add (Val a) NaN = NaN"

fun ext_neg :: "extended \<Rightarrow> extended" where
  "ext_neg NegInf = PosInf"
| "ext_neg (Fin a) = Fin (- a)"
| "ext_neg PosInf = NegInf"

fun js_sub :: "number \<Rightarrow> number \<Rightarrow> number" where
  "js_sub (Val a) (Val b) = ext_add a (ext_neg b)"
| "js_sub NaN y = NaN"
| "js_sub (Val a) NaN = NaN"

fun js_min :: "number \<Rightarrow> number \<Rightarrow> number" where
  "js_min (Val a) (Val b) = (if ext_le a b then Val a else Val b)"
| "js_min NaN y = NaN"
| "js_min (Val a) NaN = NaN"

text \<open>JavaScript truthiness, as used by \<^verbatim>\<open>!x\<close>, \<^verbatim>\<open>x || y\<close> and \<^verbatim>\<open>x ? a : b\<close>.\<close>

fun truthy :: "jsval \<Rightarrow> bool" where
  "truthy Undefined = False"
| "truthy Null = False"
| "truthy (Num x) = (x \<noteq> Fin 0)"

text \<open>\<^verbatim>\<open>ToNumber\<close>: \<^verbatim>\<open>undefined\<close> converts to NaN, \<^verbatim>\<open>null\<close> to 0.\<close>

fun to_number :: "jsval \<Rightarrow> number" where
  "to_number Undefined = NaN"
| "to_number Null = Val (Fin 0)"
| "to_number (Num x) = Val x"

text \<open>The relational operator \<^verbatim>\<open>a >= b\<close>: false as soon as one side converts to NaN.\<close>

definition js_ge :: "jsval \<Rightarrow> jsval \<Rightarrow> bool" where
  "js_ge a b = num_le (to_number b) (to_number a)"

text \<open>
  A provider item (a candidate, and the source item as well). The identifier field is
  \<^verbatim>\<open>id\<close> in the source; it is \<open>id_val\<close> here, \<open>id\<close> being the identity function of HOL.
\<close>

record candidate =
  id_val :: jsval
  title :: "string option"
  name :: "string option"
  popularity :: jsval
  vote_average :: jsval
  vote_count :: jsval
  release_date :: "string option"
  first_air_date :: "string option"
  backdrop_path :: "string option"
  poster_path :: "string option"

text \<open>
  \<^verbatim>\<open>{ ...item, relevanceScore: s }\<close>: the candidate's own properties and the score
  beside them.
\<close>

record ranked = candidate +
  relevanceScore :: number

section \<open>Relevance scorer\<close>

text \<open>
  \<^verbatim>\<open>calculateRelevanceScore(item, sourceDetails)\<close>. Both arguments are read through
  \<^verbatim>\<open>?.\<close>, so either may be null or undefined: \<open>None\<close>. The body stands in a
  \<^verbatim>\<open>try\<close> whose \<^verbatim>\<open>catch\<close> returns 0; on the values of this model nothing in the body
  throws (after the guard both popularities are non-zero numbers), so the function is
  total and the \<^verbatim>\<open>catch\<close> branch is never taken.
\<close>

text \<open>Optional chaining \<^verbatim>\<open>x?.f\<close>: \<^verbatim>\<open>undefined\<close> when \<open>x\<close> is null or undefined.\<close>

definition opt_chain :: "('a \<Rightarrow> jsval) \<Rightarrow> 'a option \<Rightarrow> jsval" where
  "opt_chain f x = (case x of None \<Rightarrow> Undefined | Some c \<Rightarrow> f c)"

text \<open>\<^verbatim>\<open>x || 0\<close> followed by the arithmetic use of the result.\<close>

fun or_zero :: "jsval \<Rightarrow> number" where
  "or_zero (Num x) = Val x"
| "or_zero Undefined = Val (Fin 0)"
| "or_zero Null = Val (Fin 0)"

text \<open>
  The two components, as the constants \<^verbatim>\<open>popularityScore\<close> and \<^verbatim>\<open>ratingScore\<close> of
  lines 116 and 117 compute them.
\<close>

definition popularityScore :: "extended \<Rightarrow> extended \<Rightarrow> number" where
  "popularityScore p q = js_mul (js_min (js_div (Val p) (Val q)) (Val (Fin 1))) (Val (Fin 50))"

definition ratingScore :: "jsval \<Rightarrow> number" where
  "ratingScore v = js_mul (js_div (or_zero v) (Val (Fin 10))) (Val (Fin 50))"

definition calculateRelevanceScore ::
  "'a candidate_scheme option \<Rightarrow> 'b candidate_scheme option \<Rightarrow> number" where
  "calculateRelevanceScore item sourceDetails =
     (if \<not> truthy (opt_chain popularity sourceDetails) \<or> \<not> truthy (opt_chain popularity item)
      then Val (Fin 0)
      else
        (case (item, sourceDetails) of
           (Some i, Some s) \<Rightarrow>
             (case (popularity i, popularity s) of
                (Num p, Num q) \<Rightarrow> js_add (popularityScore p q) (ratingScore (vote_average i))
              | _ \<Rightarrow> Val (Fin 0))
         | _ \<Rightarrow> Val (Fin 0)))"

section \<open>Merge, filter and rank\<close>

text \<open>
  \<^verbatim>\<open>Array.prototype.findIndex\<close>: the index of the first element the predicate accepts,
  and -1 when it accepts none.
\<close>

fun findIndex_from :: "('a \<Rightarrow> bool) \<Rightarrow> 'a list \<Rightarrow> nat \<Rightarrow> int" where
  "findIndex_from P [] k = - 1"
| "findIndex_from P (x # xs) k = (if P x then int k else findIndex_from P xs (Suc k))"

definition findIndex :: "('a \<Rightarrow> bool) \<Rightarrow> 'a list \<Rightarrow> int" where
  "findIndex P xs = findIndex_from P xs 0"

text \<open>
  \<^verbatim>\<open>xs.filter((item, index, self) => ...)\<close>: the callback sees the element, its index and
  the whole array.
\<close>

definition filter_indexed :: "('a \<Rightarrow> nat \<Rightarrow> 'a list \<Rightarrow> bool) \<Rightarrow> 'a list \<Rightarrow> 'a list" where
  "filter_indexed f xs = map fst (filter (\<lambda>(item, index). f item index xs) (zip xs [0..<length xs]))"

text \<open>
  The first \<^verbatim>\<open>filter\<close> of the pipeline:
  \<^verbatim>\<open>index === self.findIndex(t => t.id === item.id)\<close>. Strict equality on the values
  of \<open>jsval\<close> is equality (there is no NaN among them).
\<close>

definition dedup :: "'a candidate_scheme list \<Rightarrow> 'a candidate_scheme list" where
  "dedup xs =
     filter_indexed (\<lambda>item index self. int index = findIndex (\<lambda>t. id_val t = id_val item) self) xs"

text \<open>
  \<^verbatim>\<open>Array.prototype.sort(cmp)\<close>. The language reads a comparator's result through
  \<^verbatim>\<open>SortCompare\<close>, where NaN counts as 0, and the sort is stable: \<open>a\<close> stays before
  \<open>b\<close> unless the result for \<open>a\<close> and \<open>b\<close> is positive. For a consistent comparator
  the result is the one of the stable insertion sort below, whatever algorithm the engine
  runs. For an inconsistent one (a NaN score makes the comparator of line 162 so) the
  language leaves the order to the engine; the model keeps the insertion sort, which,
  like the engine's run detection, leaves an array alone when every comparison of two
  neighbours gives NaN.
\<close>

fun not_after :: "number \<Rightarrow> bool" where
  "not_after NaN = True"
| "not_after (Val v) = ext_le v (Fin 0)"

fun insert_by :: "('a \<Rightarrow> 'a \<Rightarrow> number) \<Rightarrow> 'a \<Rightarrow> 'a list \<Rightarrow> 'a list" where
  "insert_by cmp x [] = [x]"
| "insert_by cmp x (y # ys) =
     (if not_after (cmp x y) then x # y # ys else y # insert_by cmp x ys)"

definition js_sort :: "('a \<Rightarrow> 'a \<Rightarrow> number) \<Rightarrow> 'a list \<Rightarrow> 'a list" where
  "js_sort cmp xs = foldr (insert_by cmp) xs []"

text \<open>
  \<^verbatim>\<open>Array.prototype.slice(start, stop)\<close> on integers: a negative bound counts from the
  end of the array.
\<close>

definition js_slice :: "int \<Rightarrow> int \<Rightarrow> 'a list \<Rightarrow> 'a list" where
  "js_slice start stop xs =
     (let len = int (length xs);
          k = (if start < 0 then max (len + start) 0 else min start len);
          final = (if stop < 0 then max (len + stop) 0 else min stop len)
      in take (nat (max (final - k) 0)) (drop (nat k) xs))"

datatype error = NetworkError | HttpError nat | JsonError | TypeError

text \<open>
  The pipeline that computes \<^verbatim>\<open>allRecommendations\<close> (lines 154 to 163):
  \<open>merge_filter_rank\<close> is the chain of array operations on the concatenated items. The
  two fetched arrays may hold null entries; reading \<^verbatim>\<open>.id\<close> of one in the first filter
  throws a TypeError, and the callback of that filter reaches every entry, so the chain
  runs only when there is none. The two thresholds are the process-wide constants
  \<^verbatim>\<open>MINIMUM_VOTE_COUNT\<close> and \<^verbatim>\<open>MAX_RECOMMENDATIONS\<close>, passed in here.
\<close>

definition with_score :: "'b candidate_scheme option \<Rightarrow> candidate \<Rightarrow> ranked" where
  "with_score sourceDetails item =
     candidate.extend item (ranked.fields (calculateRelevanceScore (Some item) sourceDetails))"

definition merge_filter_rank ::
  "candidate list \<Rightarrow> 'b candidate_scheme option \<Rightarrow> int \<Rightarrow> int \<Rightarrow> ranked list" where
  "merge_filter_rank items sourceDetails minimum_vote_count max_recommendations =
     js_slice 0 max_recommendations
       (js_sort (\<lambda>a b. js_sub (relevanceScore b) (relevanceScore a))
         (map (with_score sourceDetails)
           (filter (\<lambda>item. js_ge (vote_count item) (Num (Fin (of_int minimum_vote_count))))
             (dedup items))))"

definition allRecommendations ::
  "candidate option list \<Rightarrow> candidate option list \<Rightarrow> 'b candidate_scheme option \<Rightarrow>
     int \<Rightarrow> int \<Rightarrow> error + ranked list" where
  "allRecommendations similar recommended sourceDetails minimum_vote_count max_recommendations =
     (case those (similar @ recommended) of
        None \<Rightarrow> Inl TypeError
      | Some items \<Rightarrow>
          Inr (merge_filter_rank items sourceDetails minimum_vote_count max_recommendations))"

section \<open>Configuration and start-up\<close>

text \<open>
  The environment as the process reads it once. \<open>env_TMDB_API_KEY\<close> is the variable's
  text, if set. For the two numeric variables the field is the result of \<^verbatim>\<open>parseInt\<close>
  on the variable: \<open>None\<close> when it is unset or does not start with a number (NaN).
\<close>

record environment =
  env_TMDB_API_KEY :: "string option"
  env_MINIMUM_VOTE_COUNT :: "int option"
  env_MAX_RECOMMENDATIONS :: "int option"

definition fallback_key :: string where
  "fallback_key = ''62ad28e80c6de28ca22d86345e0587de''"

text \<open>\<^verbatim>\<open>process.env.TMDB_API_KEY || '62ad...'\<close>: the empty text is falsy.\<close>

definition TMDB_API_KEY :: "environment \<Rightarrow> string" where
  "TMDB_API_KEY env =
     (case env_TMDB_API_KEY env of
        None \<Rightarrow> fallback_key
      | Some k \<Rightarrow> if k = [] then fallback_key else k)"

text \<open>\<^verbatim>\<open>parseInt(v) || d\<close>: NaN and 0 are falsy.\<close>

definition parsed_or :: "int option \<Rightarrow> int \<Rightarrow> int" where
  "parsed_or v d = (case v of None \<Rightarrow> d | Some n \<Rightarrow> if n = 0 then d else n)"

definition MINIMUM_VOTE_COUNT :: "environment \<Rightarrow> int" where
  "MINIMUM_VOTE_COUNT env = parsed_or (env_MINIMUM_VOTE_COUNT env) 50"

definition MAX_RECOMMENDATIONS :: "environment \<Rightarrow> int" where
  "MAX_RECOMMENDATIONS env = parsed_or (env_MAX_RECOMMENDATIONS env) 30"

text \<open>
  Start-up, top to bottom of the file: the key check (lines 10 to 13), then
  \<^verbatim>\<open>serveHTTP\<close> (lines 191 to 200), whose promise either resolves (\<open>listening\<close>) or
  rejects. The result is the list of messages written with \<^verbatim>\<open>console.error\<close> and the
  state the process is left in.
\<close>

datatype process_state = Exited nat | Serving

definition startup :: "environment \<Rightarrow> bool \<Rightarrow> string list \<times> process_state" where
  "startup env listening =
     (if TMDB_API_KEY env = []
      then ([''TMDB_API_KEY is required. Please set it in your environment variables.''], Exited 1)
      else if listening then ([], Serving)
      else ([''Error in Server Startup''], Exited 1))"

section \<open>Calls to the metadata provider\<close>

text \<open>
  One attempt of \<^verbatim>\<open>fetch(url)\<close> followed by \<^verbatim>\<open>response.json()\<close>, as the provider and the
  network decide it: the request is rejected, or a response arrives with its status and
  its body. \<^verbatim>\<open>response.ok\<close> holds for the statuses 200 to 299; the body is not JSON, or
  it parses. A parsed body is \<open>None\<close> when it is the JSON value null, on which every
  property read throws.
  An attempt that never settles, and the waiting time between two attempts, are outside
  this model.
\<close>

datatype 'a payload = NotJson | Json "'a option"

datatype 'a attempt = NetworkFailure | Response nat "'a payload"

fun attempt_result :: "'a attempt \<Rightarrow> error + 'a option" where
  "attempt_result NetworkFailure = Inl NetworkError"
| "attempt_result (Response status body) =
     (if status < 200 \<or> 299 < status then Inl (HttpError status)
      else (case body of NotJson \<Rightarrow> Inl JsonError | Json b \<Rightarrow> Inr b))"

text \<open>
  \<^verbatim>\<open>fetchWithRetry(url, options, retries)\<close>: the loop \<^verbatim>\<open>for (i = 0; i < retries; i++)\<close>.
  The first argument gives the outcome of the \<open>i\<close>-th attempt at the URL. A loop that
  ends without returning leaves the function's value \<^verbatim>\<open>undefined\<close>, which is \<open>None\<close>.
\<close>

function fetchWithRetry_loop :: "(nat \<Rightarrow> 'a attempt) \<Rightarrow> nat \<Rightarrow> nat \<Rightarrow> error + 'a option" where
  "fetchWithRetry_loop attempts retries i =
     (if i < retries then
        (case attempt_result (attempts i) of
           Inr b \<Rightarrow> Inr b
         | Inl e \<Rightarrow>
             if i = retries - 1 then Inl e
             else fetchWithRetry_loop attempts retries (i + 1))
      else Inr None)"
  by pat_completeness auto
termination
  by (relation "measure (\<lambda>(attempts, retries, i). retries - i)") auto

declare fetchWithRetry_loop.simps [simp del]

text \<open>Every caller leaves \<^verbatim>\<open>retries\<close> at its default, 3.\<close>

definition fetchWithRetry :: "(nat \<Rightarrow> 'a attempt) \<Rightarrow> error + 'a option" where
  "fetchWithRetry attempts = fetchWithRetry_loop attempts 3 0"

text \<open>
  The bodies of the provider's endpoints. An array property is \<open>None\<close> when it is absent
  or null; an entry of an array may be null.
\<close>

record find_data =
  movie_results :: "candidate option list option"
  tv_results :: "candidate option list option"

record list_data =
  results :: "candidate option list option"

text \<open>
  The provider, seen from one request: for each endpoint and the parameters that the URL
  carries, the outcome of each attempt.
\<close>

record provider =
  find_endpoint :: "string \<Rightarrow> nat \<Rightarrow> find_data attempt"
  detail_endpoint :: "string \<Rightarrow> jsval \<Rightarrow> nat \<Rightarrow> candidate attempt"
  similar_endpoint :: "string \<Rightarrow> jsval \<Rightarrow> nat \<Rightarrow> list_data attempt"
  recommendations_endpoint :: "string \<Rightarrow> jsval \<Rightarrow> nat \<Rightarrow> list_data attempt"

text \<open>
  \<^verbatim>\<open>type === 'series' ? 'tv' : type\<close>, computed alike in the handler and in both
  fetchers, and \<^verbatim>\<open>id.split(':')[0]\<close>, the text before the first colon.
\<close>

definition mediaType :: "string \<Rightarrow> string" where
  "mediaType ty = (if ty = ''series'' then ''tv'' else ty)"

definition baseId :: "string \<Rightarrow> string" where
  "baseId ident = takeWhile (\<lambda>c. c \<noteq> CHR '':'') ident"

text \<open>
  \<^verbatim>\<open>getTMDbId(imdbId, type)\<close>: the body of its \<^verbatim>\<open>try\<close>, then the function with its
  \<^verbatim>\<open>catch\<close>, which returns null.
\<close>

definition getTMDbId_try :: "provider \<Rightarrow> string \<Rightarrow> string \<Rightarrow> error + jsval" where
  "getTMDbId_try tmdb imdbId ty =
     (case fetchWithRetry (find_endpoint tmdb imdbId) of
        Inl e \<Rightarrow> Inl e
      | Inr None \<Rightarrow> Inl TypeError
      | Inr (Some data) \<Rightarrow>
          (case (if ty = ''movie'' then movie_results data else tv_results data) of
             None \<Rightarrow> Inr Null
           | Some [] \<Rightarrow> Inr Null
           | Some (None # _) \<Rightarrow> Inl TypeError
           | Some (Some r # _) \<Rightarrow> Inr (id_val r)))"

definition getTMDbId :: "provider \<Rightarrow> string \<Rightarrow> string \<Rightarrow> jsval" where
  "getTMDbId tmdb imdbId ty =
     (case getTMDbId_try tmdb imdbId ty of Inl e \<Rightarrow> Null | Inr v \<Rightarrow> v)"

text \<open>
  \<^verbatim>\<open>getTMDbSimilar(tmdbId, type)\<close> and \<^verbatim>\<open>getTMDbRecommendations(tmdbId, type)\<close>:
  \<^verbatim>\<open>data.results || []\<close> inside the \<^verbatim>\<open>try\<close>, the empty array from the \<^verbatim>\<open>catch\<close>.
\<close>

definition results_or_empty :: "list_data option \<Rightarrow> error + candidate option list" where
  "results_or_empty body =
     (case body of
        None \<Rightarrow> Inl TypeError
      | Some data \<Rightarrow> Inr (case results data of None \<Rightarrow> [] | Some xs \<Rightarrow> xs))"

definition getTMDbSimilar_try :: "provider \<Rightarrow> jsval \<Rightarrow> string \<Rightarrow> error + candidate option list" where
  "getTMDbSimilar_try tmdb tmdbId ty =
     (case fetchWithRetry (similar_endpoint tmdb (mediaType ty) tmdbId) of
        Inl e \<Rightarrow> Inl e
      | Inr body \<Rightarrow> results_or_empty body)"

definition getTMDbSimilar :: "provider \<Rightarrow> jsval \<Rightarrow> string \<Rightarrow> candidate option list" where
  "getTMDbSimilar tmdb tmdbId ty =
     (case getTMDbSimilar_try tmdb tmdbId ty of Inl e \<Rightarrow> [] | Inr xs \<Rightarrow> xs)"

definition getTMDbRecommendations_try ::
  "provider \<Rightarrow> jsval \<Rightarrow> string \<Rightarrow> error + candidate option list" where
  "getTMDbRecommendations_try tmdb tmdbId ty =
     (case fetchWithRetry (recommendations_endpoint tmdb (mediaType ty) tmdbId) of
        Inl e \<Rightarrow> Inl e
      | Inr body \<Rightarrow> results_or_empty body)"

definition getTMDbRecommendations :: "provider \<Rightarrow> jsval \<Rightarrow> string \<Rightarrow> candidate option list" where
  "getTMDbRecommendations tmdb tmdbId ty =
     (case getTMDbRecommendations_try tmdb tmdbId ty of Inl e \<Rightarrow> [] | Inr xs \<Rightarrow> xs)"

section \<open>Stream handler\<close>

text \<open>
  The record built for each recommendation (lines 166 to 178). \<^verbatim>\<open>behaviorHints\<close> holds
  the single property \<^verbatim>\<open>bingeGroup\<close>. The two conversions of a number to text that the
  host provides, \<^verbatim>\<open>toFixed(1)\<close> and the one of a template literal, are parameters.
\<close>

record stream =
  stream_name :: string
  stream_title :: "string option"
  url :: string
  thumbnail :: "string option"
  bingeGroup :: string

record host =
  toFixed1 :: "extended \<Rightarrow> string"
  number_text :: "extended \<Rightarrow> string"

text \<open>The star and the bullet of the badge, as their UTF-8 bytes.\<close>

definition star :: string where
  "star = [CHR 0xE2, CHR 0xAD, CHR 0x90]"

definition bullet :: string where
  "bullet = [CHR 0xE2, CHR 0x80, CHR 0xA2]"

text \<open>\<^verbatim>\<open>s?.split('-')[0]\<close>: the text before the first dash.\<close>

definition year_of :: "string option \<Rightarrow> string option" where
  "year_of d = map_option (takeWhile (\<lambda>c. c \<noteq> CHR ''-'')) d"

text \<open>\<^verbatim>\<open>a || b\<close> on texts: the empty text, null and undefined are falsy.\<close>

definition text_or :: "string option \<Rightarrow> string option \<Rightarrow> string option" where
  "text_or a b = (case a of None \<Rightarrow> b | Some s \<Rightarrow> if s = [] then b else Some s)"

text \<open>\<^verbatim>\<open>a || 'literal'\<close>, whose value is always a text.\<close>

definition text_or_lit :: "string option \<Rightarrow> string \<Rightarrow> string" where
  "text_or_lit a lit = (case a of None \<Rightarrow> lit | Some s \<Rightarrow> if s = [] then lit else s)"

definition template_text :: "host \<Rightarrow> jsval \<Rightarrow> string" where
  "template_text h v =
     (case v of Undefined \<Rightarrow> ''undefined'' | Null \<Rightarrow> ''null'' | Num x \<Rightarrow> number_text h x)"

definition rating_text :: "host \<Rightarrow> jsval \<Rightarrow> string option" where
  "rating_text h v = (case v of Num x \<Rightarrow> Some (toFixed1 h x) | _ \<Rightarrow> None)"

definition stream_of :: "host \<Rightarrow> string \<Rightarrow> ranked \<Rightarrow> stream" where
  "stream_of h media rec =
     \<lparr>stream_name =
        star @ '' '' @ text_or_lit (rating_text h (vote_average rec)) ''?''
          @ '' '' @ bullet @ '' ''
          @ text_or_lit (text_or (year_of (release_date rec)) (year_of (first_air_date rec))) ''N/A'',
      stream_title = text_or (title rec) (name rec),
      url = ''https://www.themoviedb.org/'' @ media @ ''/'' @ template_text h (id_val rec),
      thumbnail =
        (case text_or (backdrop_path rec) None of
           Some b \<Rightarrow> Some (''https://image.tmdb.org/t/p/w780'' @ b)
         | None \<Rightarrow>
             (case text_or (poster_path rec) None of
                Some p \<Rightarrow> Some (''https://image.tmdb.org/t/p/w780'' @ p)
              | None \<Rightarrow> None)),
      bingeGroup = ''cinematch-recommendations''\<rparr>"

text \<open>
  The handler given to \<^verbatim>\<open>defineStreamHandler\<close> (lines 126 to 188): the body of its
  \<^verbatim>\<open>try\<close>, in which a failed call for the source details and a TypeError of the
  pipeline are the two exceptions that are not caught further in, and then the handler
  with its \<^verbatim>\<open>catch\<close>. The media kind \<open>ty\<close> and the identifier are texts; the two
  \<^verbatim>\<open>console.log\<close> calls and \<^verbatim>\<open>Date.now()\<close> outside the \<^verbatim>\<open>try\<close> do not throw on texts.
  The two fetchers run under \<^verbatim>\<open>Promise.all\<close>; they share nothing and neither rejects,
  so their order does not matter. Console output is not part of the model.
\<close>

definition handler_try ::
  "environment \<Rightarrow> host \<Rightarrow> provider \<Rightarrow> string \<Rightarrow> string \<Rightarrow> error + stream list" where
  "handler_try env h tmdb ty ident =
     (let tmdbId = getTMDbId tmdb (baseId ident) ty
      in if \<not> truthy tmdbId then Inr []
         else
           (case fetchWithRetry (detail_endpoint tmdb (mediaType ty) tmdbId) of
              Inl e \<Rightarrow> Inl e
            | Inr sourceDetails \<Rightarrow>
                (case allRecommendations (getTMDbSimilar tmdb tmdbId ty)
                        (getTMDbRecommendations tmdb tmdbId ty) sourceDetails
                        (MINIMUM_VOTE_COUNT env) (MAX_RECOMMENDATIONS env) of
                   Inl e \<Rightarrow> Inl e
                 | Inr recs \<Rightarrow> Inr (map (stream_of h (mediaType ty)) recs))))"

definition defineStreamHandler ::
  "environment \<Rightarrow> host \<Rightarrow> provider \<Rightarrow> string \<Rightarrow> string \<Rightarrow> error + stream list" where
  "defineStreamHandler env h tmdb ty ident =
     (case handler_try env h tmdb ty ident of Inl e \<Rightarrow> Inr [] | Inr streams \<Rightarrow> Inr streams)"

section \<open>Predicates of the statements\<close>

text \<open>A popularity on which the scorer's guard \<^verbatim>\<open>!x\<close> fires: absent, null or 0.\<close>

definition missing_or_zero :: "jsval \<Rightarrow> bool" where
  "missing_or_zero v = (v = Undefined \<or> v = Null \<or> v = Num (Fin 0))"

text \<open>A field that, when it is a number, is not negative (it may be \<open>+\<infinity>\<close>).\<close>

fun nonneg :: "jsval \<Rightarrow> bool" where
  "nonneg (Num x) = ext_le (Fin 0) x"
| "nonneg Undefined = True"
| "nonneg Null = True"

text \<open>A field that, when it is a number, lies between two finite bounds.\<close>

fun in_range :: "real \<Rightarrow> real \<Rightarrow> jsval \<Rightarrow> bool" where
  "in_range lo hi (Num x) = (ext_le (Fin lo) x \<and> ext_le x (Fin hi))"
| "in_range lo hi Undefined = True"
| "in_range lo hi Null = True"

text \<open>Two fields that are not both an infinity.\<close>

fun is_infinity :: "jsval \<Rightarrow> bool" where
  "is_infinity (Num (Fin x)) = False"
| "is_infinity (Num PosInf) = True"
| "is_infinity (Num NegInf) = True"
| "is_infinity Undefined = False"
| "is_infinity Null = False"

definition not_both_infinite :: "jsval \<Rightarrow> jsval \<Rightarrow> bool" where
  "not_both_infinite a b = (\<not> (is_infinity a \<and> is_infinity b))"

text \<open>
  The popularity component of a candidate's score is a finite number, where the scorer
  computes one (it computes none when its guard fires).
\<close>

fun is_finite :: "number \<Rightarrow> bool" where
  "is_finite (Val (Fin x)) = True"
| "is_finite (Val PosInf) = False"
| "is_finite (Val NegInf) = False"
| "is_finite NaN = False"

definition finite_popularity_component ::
  "'a candidate_scheme \<Rightarrow> 'b candidate_scheme option \<Rightarrow> bool" where
  "finite_popularity_component i sourceDetails =
     (case (popularity i, opt_chain popularity sourceDetails) of
        (Num p, Num q) \<Rightarrow> p = Fin 0 \<or> q = Fin 0 \<or> is_finite (popularityScore p q)
      | _ \<Rightarrow> True)"

text \<open>A score that is a finite number between two bounds.\<close>

fun score_within :: "real \<Rightarrow> real \<Rightarrow> number \<Rightarrow> bool" where
  "score_within lo hi (Val (Fin x)) = (lo \<le> x \<and> x \<le> hi)"
| "score_within lo hi (Val PosInf) = False"
| "score_within lo hi (Val NegInf) = False"
| "score_within lo hi NaN = False"

text \<open>
  A list of ranked items in descending order of \<^verbatim>\<open>relevanceScore\<close>: each score is
  \<^verbatim>\<open>>=\<close> every later one.
\<close>

definition descending :: "ranked list \<Rightarrow> bool" where
  "descending rs = sorted_wrt (\<lambda>a b. num_le (relevanceScore b) (relevanceScore a)) rs"

text \<open>The number of elements that \<^verbatim>\<open>slice(0, stop)\<close> keeps of an array of length \<open>n\<close>.\<close>

definition slice_count :: "int \<Rightarrow> nat \<Rightarrow> nat" where
  "slice_count stop n = (if stop < 0 then nat (int n + stop) else min (nat stop) n)"

text \<open>
  The test of the first filter on an element paired with its index: the index is the
  one \<^verbatim>\<open>findIndex\<close> returns for the element's identifier.
\<close>

definition first_at :: "'a candidate_scheme list \<Rightarrow> 'a candidate_scheme \<times> nat \<Rightarrow> bool" where
  "first_at zs p = (int (snd p) = findIndex (\<lambda>t. id_val t = id_val (fst p)) zs)"

section \<open>Example data\<close>

text \<open>
  Concrete items, environments and providers, on which the statements below are
  evaluated. \<open>Number x\<close> is the field that holds the finite number \<open>x\<close>, and \<open>Score x\<close>
  the finite score \<open>x\<close>. An example item has an identifier, a popularity, a vote average
  and a vote count, and no text field.
\<close>

abbreviation Number :: "real \<Rightarrow> jsval" where
  "Number x \<equiv> Num (Fin x)"

abbreviation Score :: "real \<Rightarrow> number" where
  "Score x \<equiv> Val (Fin x)"

definition example_item :: "real \<Rightarrow> jsval \<Rightarrow> jsval \<Rightarrow> jsval \<Rightarrow> candidate" where
  "example_item i p v c =
     \<lparr>id_val = Number i, title = None, name = None, popularity = p, vote_average = v,
      vote_count = c, release_date = None, first_air_date = None, backdrop_path = None,
      poster_path = None\<rparr>"

text \<open>A source item of popularity 10.\<close>

definition example_source :: candidate where
  "example_source = example_item 603 (Number 10) (Number 8) (Number 20000)"

text \<open>No variable set, and \<^verbatim>\<open>MAX_RECOMMENDATIONS=-1\<close>.\<close>

definition example_env :: environment where
  "example_env =
     \<lparr>env_TMDB_API_KEY = None, env_MINIMUM_VOTE_COUNT = None, env_MAX_RECOMMENDATIONS = None\<rparr>"

definition example_env_negative :: environment where
  "example_env_negative = example_env\<lparr>env_MAX_RECOMMENDATIONS := Some (- 1)\<rparr>"

definition example_host :: host where
  "example_host = \<lparr>toFixed1 = (\<lambda>x. ''8.0''), number_text = (\<lambda>x. ''1'')\<rparr>"

text \<open>
  A provider that answers every attempt at an endpoint in the same way, whatever the
  parameters of the call.
\<close>

definition example_provider ::
  "find_data attempt \<Rightarrow> candidate attempt \<Rightarrow> list_data attempt \<Rightarrow> list_data attempt \<Rightarrow> provider" where
  "example_provider f d s r =
     \<lparr>find_endpoint = (\<lambda>imdbId i. f), detail_endpoint = (\<lambda>media tmdbId i. d),
      similar_endpoint = (\<lambda>media tmdbId i. s), recommendations_endpoint = (\<lambda>media tmdbId i. r)\<rparr>"

definition example_found :: "find_data attempt" where
  "example_found = Response 200 (Json (Some \<lparr>movie_results = Some [Some example_source], tv_results = Some []\<rparr>))"

definition example_list :: "candidate list \<Rightarrow> list_data attempt" where
  "example_list xs = Response 200 (Json (Some \<lparr>results = Some (map Some xs)\<rparr>))"

text \<open>A source item whose popularity is the literal \<^verbatim>\<open>1e400\<close>, an infinity.\<close>

definition example_source_infinite :: candidate where
  "example_source_infinite = example_item 603 (Num PosInf) (Number 8) (Number 20000)"

text \<open>\<^verbatim>\<open>MINIMUM_VOTE_COUNT=-5\<close>.\<close>

definition example_env_lenient :: environment where
  "example_env_lenient = example_env\<lparr>env_MINIMUM_VOTE_COUNT := Some (- 5)\<rparr>"

section \<open>Properties of the arithmetic\<close>

lemma max_double_ge: "1000 \<le> max_double"
  by (simp add: max_double_def)

lemma overflow_small: "\<bar>x\<bar> \<le> 1000 \<Longrightarrow> overflow x = Fin x"
  using max_double_ge by (auto simp: overflow_def)

lemma overflow_nonneg: "0 \<le> x \<Longrightarrow> overflow x = Fin x \<or> overflow x = PosInf"
  using max_double_ge by (auto simp: overflow_def)

lemma ext_le_refl: "ext_le x x"
  by (cases x) simp_all

lemma ext_le_PosInf [simp]: "ext_le x PosInf"
  by (cases x) simp_all

lemma ext_le_trans: "ext_le x y \<Longrightarrow> ext_le y z \<Longrightarrow> ext_le x z"
  by (cases x; cases y; cases z) simp_all

lemma ext_le_linear: "ext_le x y \<or> ext_le y x"
  by (cases x; cases y) auto

lemma overflow_mono: "x \<le> y \<Longrightarrow> ext_le (overflow x) (overflow y)"
  using max_double_ge by (auto simp: overflow_def)

text \<open>
  The comparator of line 162 on two scores that are not NaN: its result, read with NaN
  as 0, is at most 0 exactly when the first item's score is at least the second's.
\<close>

lemma not_after_sub: "not_after (js_sub (Val b) (Val a)) \<longleftrightarrow> ext_le b a"
  using max_double_ge by (cases a; cases b) (auto simp: overflow_def)

section \<open>Properties of the relevance scorer\<close>

lemma score_guard:
  "\<not> (truthy (opt_chain popularity sourceDetails) \<and> truthy (opt_chain popularity item)) \<Longrightarrow>
   calculateRelevanceScore item sourceDetails = Score 0"
  by (auto simp: calculateRelevanceScore_def)

lemma score_eq:
  assumes "popularity i = Num p" "popularity s = Num q" "p \<noteq> Fin 0" "q \<noteq> Fin 0"
  shows "calculateRelevanceScore (Some i) (Some s)
       = js_add (popularityScore p q) (ratingScore (vote_average i))"
  using assms by (simp add: calculateRelevanceScore_def opt_chain_def)

text \<open>Either the guard returns 0, or both popularities are non-zero numbers.\<close>

lemma score_cases:
  obtains (guarded)
    "\<not> (truthy (opt_chain popularity sourceDetails) \<and> truthy (opt_chain popularity item))"
    "calculateRelevanceScore item sourceDetails = Score 0"
  | (scored) i s p q where "item = Some i" "sourceDetails = Some s"
      "popularity i = Num p" "popularity s = Num q" "p \<noteq> Fin 0" "q \<noteq> Fin 0"
      "calculateRelevanceScore item sourceDetails
         = js_add (popularityScore p q) (ratingScore (vote_average i))"
proof (cases "truthy (opt_chain popularity sourceDetails) \<and> truthy (opt_chain popularity item)")
  case False
  then show ?thesis using guarded score_guard by blast
next
  case True
  then obtain i s where eqs: "item = Some i" "sourceDetails = Some s"
    by (cases item; cases sourceDetails) (auto simp: opt_chain_def)
  with True obtain p q where pq: "popularity i = Num p" "popularity s = Num q"
      "p \<noteq> Fin 0" "q \<noteq> Fin 0"
    by (cases "popularity i"; cases "popularity s") (auto simp: opt_chain_def)
  show ?thesis using scored[OF eqs pq] score_eq[OF pq] eqs by simp
qed

lemma truthy_iff: "truthy v \<longleftrightarrow> \<not> missing_or_zero v"
  by (cases v) (simp_all add: missing_or_zero_def)

text \<open>The popularity component on positive popularities that are not both infinite.\<close>

lemma popularityScore_finite:
  assumes "0 < a" "0 < b"
  shows "popularityScore (Fin a) (Fin b) = Score (min (a / b) 1 * 50)"
proof (cases "max_double < a / b")
  case True
  then have "overflow (a / b) = PosInf" by (simp add: overflow_def)
  moreover have "min (a / b) 1 = 1" using True max_double_ge by simp
  ultimately show ?thesis using assms by (simp add: popularityScore_def overflow_small)
next
  case False
  moreover have "0 < a / b" using assms by simp
  ultimately have o: "overflow (a / b) = Fin (a / b)"
    using max_double_ge by (simp add: overflow_def)
  have "\<bar>min (a / b) 1 * 50\<bar> \<le> 1000" using \<open>0 < a / b\<close> by (simp add: min_def)
  then have "overflow (min (a / b) 1 * 50) = Fin (min (a / b) 1 * 50)" by (rule overflow_small)
  then show ?thesis using assms o by (auto simp add: popularityScore_def min_def)
qed

lemma popularityScore_infinite:
  "0 < b \<Longrightarrow> popularityScore PosInf (Fin b) = Score 50"
  "popularityScore (Fin a) PosInf = Score 0"
  by (simp_all add: popularityScore_def overflow_small)

lemma popularityScore_mono:
  assumes "ext_le (Fin 0) p" "ext_le p p'" "ext_le (Fin 0) q" "p \<noteq> Fin 0" "q \<noteq> Fin 0"
    and "\<not> (p' = PosInf \<and> q = PosInf)"
  shows "\<exists>x x'. popularityScore p q = Score x \<and> popularityScore p' q = Score x'
           \<and> 0 \<le> x \<and> x \<le> x' \<and> x' \<le> 50"
proof (cases q)
  case NegInf
  with assms show ?thesis by simp
next
  case PosInf
  with assms obtain a a' where "p = Fin a" "p' = Fin a'"
    by (cases p; cases p') auto
  with PosInf show ?thesis by (simp add: popularityScore_infinite)
next
  case (Fin b)
  with assms have b: "0 < b" by simp
  show ?thesis
  proof (cases p)
    case NegInf
    with assms show ?thesis by simp
  next
    case PosInf
    with assms have "p' = PosInf" by (cases p') simp_all
    with PosInf Fin b show ?thesis by (simp add: popularityScore_infinite)
  next
    case p: (Fin a)
    with assms have a: "0 < a" by simp
    have m: "0 \<le> min (a / b) 1 * 50" "min (a / b) 1 * 50 \<le> 50" using a b by (simp_all add: min_def)
    show ?thesis
    proof (cases p')
      case NegInf
      with assms p show ?thesis by simp
    next
      case PosInf
      with p Fin a b m show ?thesis
        by (simp add: popularityScore_infinite popularityScore_finite)
    next
      case p': (Fin a')
      with assms p have le: "a \<le> a'" by simp
      then have a': "0 < a'" using a by simp
      have "a / b \<le> a' / b" using le b by (simp add: divide_right_mono)
      then have "min (a / b) 1 * 50 \<le> min (a' / b) 1 * 50" by (simp add: min_le_iff_disj)
      moreover have "min (a' / b) 1 * 50 \<le> 50" by (simp add: min_def)
      ultimately show ?thesis
        using p p' Fin a a' b m by (simp add: popularityScore_finite)
    qed
  qed
qed

text \<open>The rating component is never NaN, and it grows with the vote average.\<close>

lemma ratingScore_Num:
  "ratingScore (Num (Fin x)) = Val (overflow (x / 10 * 50))"
  "ratingScore (Num PosInf) = Val PosInf"
  "ratingScore (Num NegInf) = Val NegInf"
  using max_double_ge by (auto simp: ratingScore_def overflow_def)

lemma ratingScore_missing: "ratingScore Undefined = Score 0" "ratingScore Null = Score 0"
  by (simp_all add: ratingScore_def overflow_small)

lemma ratingScore_Val: "\<exists>r. ratingScore v = Val r"
proof (cases v)
  case (Num e)
  then show ?thesis by (cases e) (simp_all add: ratingScore_Num)
qed (simp_all add: ratingScore_missing)

lemma ratingScore_mono:
  assumes "ext_le v v'"
  shows "\<exists>r r'. ratingScore (Num v) = Val r \<and> ratingScore (Num v') = Val r' \<and> ext_le r r'"
  using assms by (cases v; cases v') (simp_all add: ratingScore_Num overflow_mono)

lemma ratingScore_nonneg:
  assumes "nonneg v"
  shows "\<exists>r. ratingScore v = Val r \<and> ext_le (Fin 0) r"
proof (cases v)
  case (Num e)
  show ?thesis
  proof (cases e)
    case (Fin x)
    with assms Num have "0 \<le> x / 10 * 50" by simp
    then have "overflow (x / 10 * 50) = Fin (x / 10 * 50) \<or> overflow (x / 10 * 50) = PosInf"
      by (rule overflow_nonneg)
    with Num Fin \<open>0 \<le> x / 10 * 50\<close> show ?thesis by (auto simp: ratingScore_Num)
  qed (use assms Num in \<open>simp_all add: ratingScore_Num\<close>)
qed (simp_all add: ratingScore_missing)

lemma ratingScore_in_range:
  assumes "in_range 0 10 v"
  shows "\<exists>x. ratingScore v = Score x \<and> 0 \<le> x \<and> x \<le> 50"
proof (cases v)
  case (Num e)
  show ?thesis
  proof (cases e)
    case (Fin x)
    with assms Num have "0 \<le> x" "x \<le> 10" by simp_all
    then show ?thesis using Num Fin by (simp add: ratingScore_Num overflow_small)
  qed (use assms Num in simp_all)
qed (simp_all add: ratingScore_missing)

text \<open>The sum of a popularity component between 0 and 50 and a rating component.\<close>

lemma js_add_mono:
  assumes "\<bar>x\<bar> \<le> 50" "\<bar>x'\<bar> \<le> 50" "x \<le> x'" "ext_le r r'"
  shows "num_le (js_add (Score x) (Val r)) (js_add (Score x') (Val r'))"
proof (cases r)
  case (Fin a)
  show ?thesis
  proof (cases r')
    case r': (Fin a')
    with assms Fin have "x + a \<le> x' + a'" by simp
    then show ?thesis using Fin r' by (simp add: overflow_mono)
  qed (use assms Fin in simp_all)
qed (use assms in \<open>cases r'; simp\<close>)+

lemma js_add_nonneg:
  assumes "0 \<le> x" "x \<le> 50" "ext_le (Fin 0) r"
  shows "num_le (Score 0) (js_add (Score x) (Val r))"
  using js_add_mono[of 0 x "Fin 0" r] assms by (simp add: overflow_small)

text \<open>The score on popularities that are not negative and not both infinite.\<close>

lemma score_components:
  assumes "nonneg (opt_chain popularity item)" "nonneg (opt_chain popularity sourceDetails)"
    and "not_both_infinite (opt_chain popularity item) (opt_chain popularity sourceDetails)"
  obtains (guarded) "calculateRelevanceScore item sourceDetails = Score 0"
  | (scored) i x where "item = Some i" "0 \<le> x" "x \<le> 50"
      "calculateRelevanceScore item sourceDetails = js_add (Score x) (ratingScore (vote_average i))"
proof (cases item sourceDetails rule: score_cases)
  case guarded
  then show ?thesis using that(1) by blast
next
  case (scored i s p q)
  from assms scored have "ext_le (Fin 0) p" "ext_le (Fin 0) q" "\<not> (p = PosInf \<and> q = PosInf)"
    by (auto simp: opt_chain_def not_both_infinite_def)
  from popularityScore_mono[OF this(1) ext_le_refl this(2) scored(5,6) this(3)]
  obtain x where "popularityScore p q = Score x" "0 \<le> x" "x \<le> 50" by auto
  with scored that(2) show ?thesis by simp
qed

lemma score_not_NaN:
  assumes "nonneg (opt_chain popularity item)" "nonneg (opt_chain popularity sourceDetails)"
    and "not_both_infinite (opt_chain popularity item) (opt_chain popularity sourceDetails)"
  shows "calculateRelevanceScore item sourceDetails \<noteq> NaN"
  using assms
proof (cases rule: score_components)
  case guarded
  then show ?thesis by simp
next
  case (scored i x)
  obtain r where "ratingScore (vote_average i) = Val r" using ratingScore_Val by blast
  with scored show ?thesis by (cases r) simp_all
qed

lemma score_within_0_100:
  assumes "nonneg (opt_chain popularity item)" "nonneg (opt_chain popularity sourceDetails)"
    and "not_both_infinite (opt_chain popularity item) (opt_chain popularity sourceDetails)"
    and "in_range 0 10 (opt_chain vote_average item)"
  shows "score_within 0 100 (calculateRelevanceScore item sourceDetails)"
  using assms(1-3)
proof (cases rule: score_components)
  case guarded
  then show ?thesis by simp
next
  case (scored i x)
  from assms(4) scored(1) have "in_range 0 10 (vote_average i)" by (simp add: opt_chain_def)
  then obtain y where "ratingScore (vote_average i) = Score y" "0 \<le> y" "y \<le> 50"
    using ratingScore_in_range by blast
  with scored show ?thesis by (simp add: overflow_small)
qed

lemma score_mono_popularity:
  assumes "popularity i = Num p" "ext_le (Fin 0) p" "ext_le p p'"
    and "nonneg (vote_average i)" "nonneg (opt_chain popularity sourceDetails)"
    and "not_both_infinite (Num p') (opt_chain popularity sourceDetails)"
  shows "num_le (calculateRelevanceScore (Some i) sourceDetails)
           (calculateRelevanceScore (Some (i\<lparr>popularity := Num p'\<rparr>)) sourceDetails)"
proof -
  let ?i' = "i\<lparr>popularity := Num p'\<rparr>"
  have p': "ext_le (Fin 0) p'" using assms(2,3) by (rule ext_le_trans)
  obtain r where r: "ratingScore (vote_average i) = Val r" "ext_le (Fin 0) r"
    using ratingScore_nonneg[OF assms(4)] by blast
  have after: "num_le (Score 0) (calculateRelevanceScore (Some ?i') sourceDetails)"
  proof -
    have n: "nonneg (opt_chain popularity (Some ?i'))" using p' by (simp add: opt_chain_def)
    have b: "not_both_infinite (opt_chain popularity (Some ?i'))
        (opt_chain popularity sourceDetails)"
      using assms(6) by (simp add: opt_chain_def)
    from n assms(5) b show ?thesis
    proof (cases rule: score_components[where item = "Some ?i'" and sourceDetails = sourceDetails])
      case guarded
      then show ?thesis by simp
    next
      case (scored j x)
      then have "vote_average j = vote_average i" by auto
      with scored r js_add_nonneg[of x r] show ?thesis by simp
    qed
  qed
  show ?thesis
  proof (cases "Some i" sourceDetails rule: score_cases)
    case guarded
    with after show ?thesis by simp
  next
    case (scored i0 s p0 q)
    from scored(1) have i0: "i0 = i" by simp
    from scored(3) assms(1) have p0: "p0 = p" by (simp add: i0)
    have q: "ext_le (Fin 0) q" using assms(5) scored(2,4) by (simp add: opt_chain_def)
    have nb: "\<not> (p' = PosInf \<and> q = PosInf)"
      using assms(6) scored(2,4) by (auto simp: opt_chain_def not_both_infinite_def)
    have pz: "p \<noteq> Fin 0" using scored(5) p0 by simp
    from popularityScore_mono[OF assms(2,3) q pz scored(6) nb]
    obtain x x' where x: "popularityScore p q = Score x" "popularityScore p' q = Score x'"
        "0 \<le> x" "x \<le> x'" "x' \<le> 50"
      by blast
    have p'z: "p' \<noteq> Fin 0" using assms(2,3) pz by (cases p; cases p') auto
    have e1: "calculateRelevanceScore (Some i) sourceDetails = js_add (Score x) (Val r)"
      using scored(7) by (simp only: i0 p0 x r)
    have e2: "calculateRelevanceScore (Some ?i') sourceDetails = js_add (Score x') (Val r)"
      using score_eq[of ?i' p' s q] scored(2,4,6) p'z x r by simp
    show ?thesis unfolding e1 e2 using x by (intro js_add_mono ext_le_refl) simp_all
  qed
qed

lemma js_add_mono_right:
  assumes "ext_le r r'"
  shows "num_le (js_add (Score x) (Val r)) (js_add (Score x) (Val r'))"
proof (cases r)
  case (Fin a)
  show ?thesis
  proof (cases r')
    case r': (Fin a')
    with assms Fin have "x + a \<le> x + a'" by simp
    then show ?thesis using Fin r' by (simp add: overflow_mono)
  qed (use assms Fin in simp_all)
qed (use assms in \<open>cases r'; simp\<close>)+

lemma finite_popularity_componentI:
  assumes "nonneg (popularity i)" "nonneg (opt_chain popularity sourceDetails)"
    and "not_both_infinite (popularity i) (opt_chain popularity sourceDetails)"
  shows "finite_popularity_component i sourceDetails"
proof (cases "popularity i")
  case (Num p)
  show ?thesis
  proof (cases "opt_chain popularity sourceDetails")
    case q: (Num q)
    show ?thesis
    proof (cases "p = Fin 0 \<or> q = Fin 0")
      case True
      with Num q show ?thesis by (auto simp: finite_popularity_component_def)
    next
      case False
      from assms Num q have "ext_le (Fin 0) p" "ext_le (Fin 0) q" "\<not> (p = PosInf \<and> q = PosInf)"
        by (auto simp: not_both_infinite_def)
      from popularityScore_mono[OF this(1) ext_le_refl this(2) _ _ this(3)] False
      obtain x where "popularityScore p q = Score x" by auto
      with Num q show ?thesis by (simp add: finite_popularity_component_def)
    qed
  qed (simp_all add: finite_popularity_component_def Num)
qed (simp_all add: finite_popularity_component_def)

lemma score_mono_vote_average:
  assumes "vote_average i = Num v" "ext_le v v'"
    and "finite_popularity_component i sourceDetails"
  shows "num_le (calculateRelevanceScore (Some i) sourceDetails)
           (calculateRelevanceScore (Some (i\<lparr>vote_average := Num v'\<rparr>)) sourceDetails)"
proof (cases "truthy (opt_chain popularity sourceDetails) \<and> truthy (opt_chain popularity (Some i))")
  case False
  then have "\<not> (truthy (opt_chain popularity sourceDetails)
        \<and> truthy (opt_chain popularity (Some (i\<lparr>vote_average := Num v'\<rparr>))))"
    by (simp add: opt_chain_def)
  then have "calculateRelevanceScore (Some (i\<lparr>vote_average := Num v'\<rparr>)) sourceDetails = Score 0"
    by (rule score_guard)
  moreover have "calculateRelevanceScore (Some i) sourceDetails = Score 0"
    using False by (rule score_guard)
  ultimately show ?thesis by simp
next
  case True
  then obtain s where s: "sourceDetails = Some s"
    by (cases sourceDetails) (auto simp: opt_chain_def)
  with True obtain p q where pq: "popularity i = Num p" "popularity s = Num q"
      "p \<noteq> Fin 0" "q \<noteq> Fin 0"
    by (cases "popularity i"; cases "popularity s") (auto simp: opt_chain_def)
  from assms(3) pq s have "is_finite (popularityScore p q)"
    by (simp add: finite_popularity_component_def opt_chain_def)
  then obtain x where x: "popularityScore p q = Score x"
    by (cases "popularityScore p q" rule: is_finite.cases) simp_all
  obtain r r' where r: "ratingScore (Num v) = Val r" "ratingScore (Num v') = Val r'" "ext_le r r'"
    using ratingScore_mono[OF assms(2)] by blast
  have e1: "calculateRelevanceScore (Some i) sourceDetails = js_add (Score x) (Val r)"
    using score_eq[OF pq] s x r assms(1) by simp
  have e2: "calculateRelevanceScore (Some (i\<lparr>vote_average := Num v'\<rparr>)) sourceDetails
      = js_add (Score x) (Val r')"
    using score_eq[of "i\<lparr>vote_average := Num v'\<rparr>" p s q] pq s x r by simp
  show ?thesis unfolding e1 e2 using r(3) by (rule js_add_mono_right)
qed

lemma popularityScore_capped:
  assumes "0 < q" "ext_le (Fin q) p"
  shows "popularityScore p (Fin q) = Score 50"
proof (cases p)
  case (Fin a)
  with assms have "0 < a" "1 \<le> a / q" by simp_all
  then have "min (a / q) 1 = 1" by simp
  with Fin assms \<open>0 < a\<close> show ?thesis by (simp add: popularityScore_finite)
qed (use assms in \<open>simp_all add: popularityScore_infinite\<close>)

lemma score_capped:
  assumes "popularity i = Num p" "popularity s = Num (Fin q)" "0 < q" "ext_le (Fin q) p"
    and "ext_le p p'"
  shows "calculateRelevanceScore (Some (i\<lparr>popularity := Num p'\<rparr>)) (Some s)
       = calculateRelevanceScore (Some i) (Some s)"
proof -
  have q': "ext_le (Fin q) p'" using assms(4,5) by (rule ext_le_trans)
  have nz: "p \<noteq> Fin 0" "p' \<noteq> Fin 0" "Fin q \<noteq> Fin 0" using assms(3,4) q' by auto
  have "calculateRelevanceScore (Some (i\<lparr>popularity := Num p'\<rparr>)) (Some s)
      = js_add (popularityScore p' (Fin q)) (ratingScore (vote_average i))"
    using score_eq[of "i\<lparr>popularity := Num p'\<rparr>" p' s "Fin q"] assms(2) nz by simp
  moreover have "calculateRelevanceScore (Some i) (Some s)
      = js_add (popularityScore p (Fin q)) (ratingScore (vote_average i))"
    using score_eq[OF assms(1,2)] nz by simp
  ultimately show ?thesis
    by (simp only: popularityScore_capped[OF assms(3,4)] popularityScore_capped[OF assms(3) q'])
qed

text \<open>The score of an example item against a source, evaluated.\<close>

lemma example_item_fields:
  "id_val (example_item i p v c) = Number i" "popularity (example_item i p v c) = p"
  "vote_average (example_item i p v c) = v" "vote_count (example_item i p v c) = c"
  by (simp_all add: example_item_def)

lemma example_score:
  "p \<noteq> Fin 0 \<Longrightarrow> calculateRelevanceScore (Some (example_item i (Num p) v c)) (Some example_source)
     = js_add (popularityScore p (Fin 10)) (ratingScore v)"
  "p \<noteq> Fin 0 \<Longrightarrow>
   calculateRelevanceScore (Some (example_item i (Num p) v c)) (Some example_source_infinite)
     = js_add (popularityScore p PosInf) (ratingScore v)"
  by (simp_all add: score_eq example_item_fields example_source_def example_source_infinite_def)

lemma example_components:
  "\<bar>a\<bar> \<le> 10 \<Longrightarrow> popularityScore (Fin a) (Fin 10) = Score (min (a / 10) 1 * 50)"
  "popularityScore PosInf PosInf = NaN"
  "popularityScore NegInf (Fin 10) = Val NegInf"
  "\<bar>x\<bar> \<le> 100 \<Longrightarrow> ratingScore (Number x) = Score (x / 10 * 50)"
  by (auto simp: popularityScore_def ratingScore_def overflow_small min_def)

text \<open>
  C3, as stated, fails: a candidate of popularity -5 (which is \<open>\<le> 0\<close>) passes the guard
  \<^verbatim>\<open>!item?.popularity\<close>, a negative number being truthy, and scores 15 against a source
  of popularity 10.
\<close>

theorem score_negative_popularity_counterexample:
  "popularity (example_item 1 (Number (- 5)) (Number 8) (Number 100)) = Number (- 5)
   \<and> calculateRelevanceScore (Some (example_item 1 (Number (- 5)) (Number 8) (Number 100)))
        (Some example_source) = Score 15
   \<and> calculateRelevanceScore (Some (example_item 1 (Number (- 5)) (Number 8) (Number 100)))
        (Some example_source) \<noteq> Score 0"
  by (simp add: example_score example_components example_item_fields overflow_small)

text \<open>
  C3, amended: if the candidate's popularity is 0 or missing (absent or null, or the
  candidate itself is null), or the source item's popularity is 0 or missing, then the
  relevance score is 0.
\<close>

theorem score_zero_when_popularity_missing_or_zero:
  "missing_or_zero (opt_chain popularity item)
     \<or> missing_or_zero (opt_chain popularity sourceDetails) \<Longrightarrow>
   calculateRelevanceScore item sourceDetails = Score 0"
  by (rule score_guard) (auto simp: truthy_iff)

theorem score_zero_when_popularity_missing_or_zero_witness:
  "missing_or_zero (opt_chain popularity (Some (example_item 1 (Number 0) (Number 8) (Number 100))))
   \<and> calculateRelevanceScore (Some (example_item 1 (Number 0) (Number 8) (Number 100)))
        (Some example_source) = Score 0
   \<and> missing_or_zero (opt_chain popularity (None :: candidate option))
   \<and> calculateRelevanceScore (Some (example_item 1 (Number 7) (Number 8) (Number 100)))
        (None :: candidate option) = Score 0"
proof -
  have a: "missing_or_zero
      (opt_chain popularity (Some (example_item 1 (Number 0) (Number 8) (Number 100))))"
    by (simp add: missing_or_zero_def opt_chain_def example_item_def)
  have b: "missing_or_zero (opt_chain popularity (None :: candidate option))"
    by (simp add: missing_or_zero_def opt_chain_def)
  show ?thesis
    using a b
      score_zero_when_popularity_missing_or_zero[OF disjI1, OF a, of "Some example_source"]
      score_zero_when_popularity_missing_or_zero[OF disjI2, OF b,
        of "Some (example_item 1 (Number 7) (Number 8) (Number 100))"]
    by simp
qed

text \<open>
  C4, as stated, fails: a popularity of -5 against a source of popularity 10 gives the
  score -25, and a vote average of 20 gives the score 125. And when the popularity of
  the candidate and of the source are both the literal \<^verbatim>\<open>1e400\<close>, which parses to an
  infinity, their ratio is NaN and so is the score.
\<close>

theorem score_out_of_range_counterexample:
  "calculateRelevanceScore (Some (example_item 1 (Number (- 5)) (Number 0) (Number 100)))
        (Some example_source) = Score (- 25)
   \<and> \<not> score_within 0 100 (Score (- 25))
   \<and> calculateRelevanceScore (Some (example_item 1 (Number 5) (Number 20) (Number 100)))
        (Some example_source) = Score 125
   \<and> \<not> score_within 0 100 (Score 125)
   \<and> calculateRelevanceScore (Some (example_item 1 (Num PosInf) (Number 8) (Number 100)))
        (Some example_source_infinite) = NaN
   \<and> \<not> score_within 0 100 NaN"
  by (simp add: example_score example_components overflow_small)

text \<open>
  C4, amended: for every candidate and every source item whose popularity values are
  not negative and not both infinite, and whose vote average lies between 0 and 10 (each
  of the three possibly missing), the relevance score is a number in the interval from 0
  to 100.
\<close>

theorem score_in_range:
  assumes "nonneg (opt_chain popularity item)"
    and "nonneg (opt_chain popularity sourceDetails)"
    and "not_both_infinite (opt_chain popularity item) (opt_chain popularity sourceDetails)"
    and "in_range 0 10 (opt_chain vote_average item)"
  shows "score_within 0 100 (calculateRelevanceScore item sourceDetails)"
  using assms by (rule score_within_0_100)

theorem score_in_range_witness:
  "nonneg (opt_chain popularity (Some (example_item 1 (Num PosInf) (Number 8) (Number 100))))
   \<and> nonneg (opt_chain popularity (Some example_source))
   \<and> not_both_infinite
        (opt_chain popularity (Some (example_item 1 (Num PosInf) (Number 8) (Number 100))))
        (opt_chain popularity (Some example_source))
   \<and> in_range 0 10
        (opt_chain vote_average (Some (example_item 1 (Num PosInf) (Number 8) (Number 100))))
   \<and> score_within 0 100
        (calculateRelevanceScore (Some (example_item 1 (Num PosInf) (Number 8) (Number 100)))
          (Some example_source))"
proof -
  have a: "nonneg (opt_chain popularity (Some (example_item 1 (Num PosInf) (Number 8) (Number 100))))"
    by (simp add: opt_chain_def example_item_def)
  have b: "nonneg (opt_chain popularity (Some example_source))"
    by (simp add: opt_chain_def example_item_def example_source_def)
  have c: "not_both_infinite
        (opt_chain popularity (Some (example_item 1 (Num PosInf) (Number 8) (Number 100))))
        (opt_chain popularity (Some example_source))"
    by (simp add: opt_chain_def example_item_def example_source_def not_both_infinite_def)
  have d: "in_range 0 10
        (opt_chain vote_average (Some (example_item 1 (Num PosInf) (Number 8) (Number 100))))"
    by (simp add: opt_chain_def example_item_def)
  from a b c d score_in_range[OF a b c d] show ?thesis by (intro conjI)
qed

text \<open>
  C5, as stated, fails. With a vote average of 8 and a source of popularity 10, raising
  the candidate's popularity from -1 to 0 lowers the score from 35 to 0, since at 0 the
  guard discards the rating component as well. Against a source whose popularity is an
  infinity, raising the popularity from 5 to an infinity turns the score 40 into NaN.
  And for a candidate whose popularity is the negative infinity, against a source of
  popularity 10, raising the vote average from 0 to an infinity turns the score
  \<open>-\<infinity>\<close> into NaN. NaN is not \<^verbatim>\<open>>=\<close> any score.
\<close>

theorem score_not_monotone_counterexample:
  "calculateRelevanceScore (Some (example_item 1 (Number (- 1)) (Number 8) (Number 100)))
        (Some example_source) = Score 35
   \<and> calculateRelevanceScore
        (Some ((example_item 1 (Number (- 1)) (Number 8) (Number 100))\<lparr>popularity := Number 0\<rparr>))
        (Some example_source) = Score 0
   \<and> \<not> num_le (Score 35) (Score 0)
   \<and> calculateRelevanceScore (Some (example_item 1 (Number 5) (Number 8) (Number 100)))
        (Some example_source_infinite) = Score 40
   \<and> calculateRelevanceScore
        (Some ((example_item 1 (Number 5) (Number 8) (Number 100))\<lparr>popularity := Num PosInf\<rparr>))
        (Some example_source_infinite) = NaN
   \<and> \<not> num_le (Score 40) NaN
   \<and> calculateRelevanceScore (Some (example_item 1 (Num NegInf) (Number 0) (Number 100)))
        (Some example_source) = Val NegInf
   \<and> calculateRelevanceScore
        (Some ((example_item 1 (Num NegInf) (Number 0) (Number 100))\<lparr>vote_average := Num PosInf\<rparr>))
        (Some example_source) = NaN
   \<and> \<not> num_le (Val NegInf) NaN"
proof -
  have u: "(example_item 1 (Number (- 1)) (Number 8) (Number 100))\<lparr>popularity := Number 0\<rparr>
        = example_item 1 (Number 0) (Number 8) (Number 100)"
      "(example_item 1 (Number 5) (Number 8) (Number 100))\<lparr>popularity := Num PosInf\<rparr>
        = example_item 1 (Num PosInf) (Number 8) (Number 100)"
      "(example_item 1 (Num NegInf) (Number 0) (Number 100))\<lparr>vote_average := Num PosInf\<rparr>
        = example_item 1 (Num NegInf) (Num PosInf) (Number 100)"
    by (simp_all add: example_item_def)
  have z: "calculateRelevanceScore (Some (example_item 1 (Number 0) (Number 8) (Number 100)))
        (Some example_source) = Score 0"
    by (rule score_guard) (simp add: opt_chain_def example_item_fields)
  have inf: "popularityScore (Fin 5) PosInf = Score 0" "ratingScore (Num PosInf) = Val PosInf"
    by (simp_all add: popularityScore_infinite ratingScore_Num)
  show ?thesis
    unfolding u z
    by (simp add: example_score example_components inf overflow_small)
qed

text \<open>
  C5, amended: for a source item and a candidate, the relevance score does not decrease
  when the candidate's vote average alone is raised, provided the popularity component
  of the score is a finite number, as it is whenever the two popularities are not
  negative and not both infinite. When the two popularities are not negative and not
  both infinite and the vote average is not negative either, the score does not decrease
  when the candidate's popularity alone is raised; and it stays the same once the
  popularity has reached the popularity of the source item, when that one is finite and
  positive.
\<close>

theorem score_monotone:
  "(popularity i = Num p \<and> ext_le (Fin 0) p \<and> ext_le p p' \<and> nonneg (vote_average i)
      \<and> nonneg (opt_chain popularity sourceDetails)
      \<and> not_both_infinite (Num p') (opt_chain popularity sourceDetails) \<longrightarrow>
      num_le (calculateRelevanceScore (Some i) sourceDetails)
        (calculateRelevanceScore (Some (i\<lparr>popularity := Num p'\<rparr>)) sourceDetails))
   \<and> (popularity i = Num p \<and> popularity s = Number q \<and> 0 < q \<and> ext_le (Fin q) p
      \<and> ext_le p p' \<longrightarrow>
      calculateRelevanceScore (Some (i\<lparr>popularity := Num p'\<rparr>)) (Some s)
        = calculateRelevanceScore (Some i) (Some s))
   \<and> (vote_average i = Num v \<and> ext_le v v' \<and> finite_popularity_component i sourceDetails \<longrightarrow>
      num_le (calculateRelevanceScore (Some i) sourceDetails)
        (calculateRelevanceScore (Some (i\<lparr>vote_average := Num v'\<rparr>)) sourceDetails))
   \<and> (nonneg (popularity i) \<and> nonneg (opt_chain popularity sourceDetails)
      \<and> not_both_infinite (popularity i) (opt_chain popularity sourceDetails) \<longrightarrow>
      finite_popularity_component i sourceDetails)"
proof (intro conjI impI)
  assume "popularity i = Num p \<and> ext_le (Fin 0) p \<and> ext_le p p' \<and> nonneg (vote_average i)
      \<and> nonneg (opt_chain popularity sourceDetails)
      \<and> not_both_infinite (Num p') (opt_chain popularity sourceDetails)"
  then show "num_le (calculateRelevanceScore (Some i) sourceDetails)
        (calculateRelevanceScore (Some (i\<lparr>popularity := Num p'\<rparr>)) sourceDetails)"
    by (intro score_mono_popularity[of i p p' sourceDetails]) simp_all
next
  assume "popularity i = Num p \<and> popularity s = Number q \<and> 0 < q \<and> ext_le (Fin q) p
      \<and> ext_le p p'"
  then show "calculateRelevanceScore (Some (i\<lparr>popularity := Num p'\<rparr>)) (Some s)
        = calculateRelevanceScore (Some i) (Some s)"
    by (intro score_capped[of i p s q p']) simp_all
next
  assume "vote_average i = Num v \<and> ext_le v v' \<and> finite_popularity_component i sourceDetails"
  then show "num_le (calculateRelevanceScore (Some i) sourceDetails)
        (calculateRelevanceScore (Some (i\<lparr>vote_average := Num v'\<rparr>)) sourceDetails)"
    by (intro score_mono_vote_average[of i v v' sourceDetails]) simp_all
next
  assume "nonneg (popularity i) \<and> nonneg (opt_chain popularity sourceDetails)
      \<and> not_both_infinite (popularity i) (opt_chain popularity sourceDetails)"
  then show "finite_popularity_component i sourceDetails"
    by (intro finite_popularity_componentI) simp_all
qed

theorem score_monotone_witness:
  "num_le
     (calculateRelevanceScore (Some (example_item 1 (Number 2) (Number 8) (Number 100)))
        (Some example_source))
     (calculateRelevanceScore
        (Some ((example_item 1 (Number 2) (Number 8) (Number 100))\<lparr>popularity := Number 5\<rparr>))
        (Some example_source))
   \<and> calculateRelevanceScore
         (Some ((example_item 1 (Number 12) (Number 8) (Number 100))\<lparr>popularity := Num PosInf\<rparr>))
         (Some example_source)
       = calculateRelevanceScore (Some (example_item 1 (Number 12) (Number 8) (Number 100)))
           (Some example_source)
   \<and> num_le
       (calculateRelevanceScore (Some (example_item 1 (Number 2) (Number 6) (Number 100)))
          (Some example_source))
       (calculateRelevanceScore
          (Some ((example_item 1 (Number 2) (Number 6) (Number 100))\<lparr>vote_average := Num PosInf\<rparr>))
          (Some example_source))"
proof (intro conjI)
  show "num_le
     (calculateRelevanceScore (Some (example_item 1 (Number 2) (Number 8) (Number 100)))
        (Some example_source))
     (calculateRelevanceScore
        (Some ((example_item 1 (Number 2) (Number 8) (Number 100))\<lparr>popularity := Number 5\<rparr>))
        (Some example_source))"
    by (rule score_monotone[where p = "Fin 2", THEN conjunct1, THEN mp])
      (simp add: example_item_def example_source_def opt_chain_def not_both_infinite_def)
next
  show "calculateRelevanceScore
         (Some ((example_item 1 (Number 12) (Number 8) (Number 100))\<lparr>popularity := Num PosInf\<rparr>))
         (Some example_source)
       = calculateRelevanceScore (Some (example_item 1 (Number 12) (Number 8) (Number 100)))
           (Some example_source)"
    by (rule score_monotone[where p = "Fin 12" and q = 10, THEN conjunct2, THEN conjunct1, THEN mp])
      (simp add: example_item_def example_source_def)
next
  show "num_le
       (calculateRelevanceScore (Some (example_item 1 (Number 2) (Number 6) (Number 100)))
          (Some example_source))
       (calculateRelevanceScore
          (Some ((example_item 1 (Number 2) (Number 6) (Number 100))\<lparr>vote_average := Num PosInf\<rparr>))
          (Some example_source))"
  proof -
    have "finite_popularity_component (example_item 1 (Number 2) (Number 6) (Number 100))
        (Some example_source)"
      by (rule score_monotone[THEN conjunct2, THEN conjunct2, THEN conjunct2, THEN mp])
        (simp add: example_item_def example_source_def opt_chain_def not_both_infinite_def)
    then show ?thesis
      by (intro score_monotone[where v = "Fin 6", THEN conjunct2, THEN conjunct2, THEN conjunct1,
            THEN mp])
        (simp add: example_item_def)
  qed
qed

section \<open>Properties of the pipeline\<close>

lemma findIndex_from_found: "\<exists>x\<in>set xs. P x \<Longrightarrow> int k \<le> findIndex_from P xs k"
proof (induction xs arbitrary: k)
  case Nil
  then show ?case by simp
next
  case (Cons a xs)
  show ?case
  proof (cases "P a")
    case True
    then show ?thesis by simp
  next
    case False
    with Cons.prems have "\<exists>x\<in>set xs. P x" by simp
    then have "int (Suc k) \<le> findIndex_from P xs (Suc k)" by (rule Cons.IH)
    with False show ?thesis by simp
  qed
qed

lemma findIndex_from_shift:
  "\<exists>x\<in>set xs. P x \<Longrightarrow> findIndex_from P xs (Suc k) = findIndex_from P xs k + 1"
  by (induction xs arbitrary: k) auto

lemma findIndex_Cons:
  "\<exists>y\<in>set xs. P y \<Longrightarrow> findIndex P (x # xs) = (if P x then 0 else findIndex P xs + 1)"
  by (simp add: findIndex_def findIndex_from_shift)

lemma findIndex_nonneg: "\<exists>x\<in>set xs. P x \<Longrightarrow> 0 \<le> findIndex P xs"
  using findIndex_from_found[of xs P 0] by (simp add: findIndex_def)

lemma dedup_first_at: "dedup zs = map fst (filter (first_at zs) (zip zs [0..<length zs]))"
proof -
  have "(\<lambda>(item, index). int index = findIndex (\<lambda>t. id_val t = id_val item) zs) = first_at zs"
    by (auto simp: first_at_def fun_eq_iff)
  then show ?thesis by (simp add: dedup_def filter_indexed_def)
qed

lemma first_at_head: "first_at (x # xs) (x, 0)"
  by (simp add: first_at_def findIndex_def)

lemma first_at_tail:
  assumes "y \<in> set xs"
  shows "first_at (x # xs) (y, Suc i) \<longleftrightarrow> id_val y \<noteq> id_val x \<and> first_at xs (y, i)"
proof -
  from assms have ex: "\<exists>t\<in>set xs. id_val t = id_val y" by blast
  have nn: "0 \<le> findIndex (\<lambda>t. id_val t = id_val y) xs" using ex by (rule findIndex_nonneg)
  have eq: "findIndex (\<lambda>t. id_val t = id_val y) (x # xs) =
      (if id_val x = id_val y then 0 else findIndex (\<lambda>t. id_val t = id_val y) xs + 1)"
    using ex by (rule findIndex_Cons)
  show ?thesis
  proof (cases "id_val x = id_val y")
    case True
    then show ?thesis by (simp add: first_at_def eq)
  next
    case False
    then have "id_val y \<noteq> id_val x" by simp
    with False show ?thesis by (auto simp add: first_at_def eq)
  qed
qed

lemma dedup_Nil: "dedup [] = []"
  by (simp add: dedup_def filter_indexed_def)

lemma dedup_Cons: "dedup (x # xs) = x # filter (\<lambda>y. id_val y \<noteq> id_val x) (dedup xs)"
proof -
  let ?n = "length xs"
  let ?up = "\<lambda>p::'a candidate_scheme \<times> nat. (fst p, Suc (snd p))"
  let ?zs = "zip xs [0..<?n]"
  have up: "[0..<length (x # xs)] = 0 # map Suc [0..<?n]"
    by (simp add: upt_conv_Cons map_Suc_upt del: upt_Suc)
  have zip: "zip xs (map Suc [0..<?n]) = map ?up ?zs"
    by (simp add: zip_map2 case_prod_beta)
  have cong: "filter (first_at (x # xs) \<circ> ?up) ?zs
      = filter (\<lambda>p. id_val (fst p) \<noteq> id_val x \<and> first_at xs p) ?zs"
  proof (rule filter_cong[OF refl])
    fix p assume "p \<in> set ?zs"
    then have "fst p \<in> set xs" by (metis prod.collapse set_zip_leftD)
    from first_at_tail[OF this, of x "snd p"]
    show "(first_at (x # xs) \<circ> ?up) p = (id_val (fst p) \<noteq> id_val x \<and> first_at xs p)"
      by simp
  qed
  have "dedup (x # xs) = map fst (filter (first_at (x # xs)) ((x, 0) # map ?up ?zs))"
    unfolding dedup_first_at up by (simp only: zip_Cons_Cons zip)
  also have "\<dots> = x # map fst (filter (first_at (x # xs)) (map ?up ?zs))"
    by (simp add: first_at_head)
  also have "filter (first_at (x # xs)) (map ?up ?zs) = map ?up (filter (first_at (x # xs) \<circ> ?up) ?zs)"
    by (rule filter_map)
  also have "map fst (map ?up (filter (first_at (x # xs) \<circ> ?up) ?zs))
       = map fst (filter (\<lambda>p. id_val (fst p) \<noteq> id_val x \<and> first_at xs p) ?zs)"
    unfolding cong by (simp add: o_def)
  also have "\<dots> = map fst (filter ((\<lambda>y. id_val y \<noteq> id_val x) \<circ> fst) (filter (first_at xs) ?zs))"
    by (simp add: o_def conj_commute)
  also have "\<dots> = filter (\<lambda>y. id_val y \<noteq> id_val x) (map fst (filter (first_at xs) ?zs))"
    by (simp only: filter_map)
  finally show ?thesis by (simp only: dedup_first_at)
qed

lemma dedup_subset: "set (dedup xs) \<subseteq> set xs"
  by (induction xs) (auto simp: dedup_Nil dedup_Cons)

lemma dedup_distinct: "distinct (map id_val (dedup xs))"
  by (induction xs) (auto simp: dedup_Nil dedup_Cons distinct_map_filter)

lemma ids_filter_neq: "id_val ` set (filter (\<lambda>y. id_val y \<noteq> a) ys) = id_val ` set ys - {a}"
  by auto

lemma dedup_ids: "id_val ` set (dedup xs) = id_val ` set xs"
proof (induction xs)
  case Nil
  show ?case by (simp add: dedup_Nil)
next
  case (Cons x xs)
  have "id_val ` set (dedup (x # xs)) = insert (id_val x) (id_val ` set (dedup xs) - {id_val x})"
    by (simp only: dedup_Cons list.set image_insert ids_filter_neq)
  with Cons.IH show ?case by auto
qed

lemma dedup_first:
  "filter (\<lambda>y. id_val y = k) (dedup xs) = (case find (\<lambda>t. id_val t = k) xs of None \<Rightarrow> [] | Some x \<Rightarrow> [x])"
proof (induction xs)
  case Nil
  show ?case by (simp add: dedup_Nil)
next
  case (Cons x xs)
  show ?case
  proof (cases "id_val x = k")
    case True
    then have "filter (\<lambda>y. id_val y = k) (filter (\<lambda>y. id_val y \<noteq> id_val x) (dedup xs)) = []"
      by (auto simp: filter_empty_conv)
    with True show ?thesis by (simp add: dedup_Cons)
  next
    case False
    then have "filter (\<lambda>y. id_val y = k) (filter (\<lambda>y. id_val y \<noteq> id_val x) (dedup xs))
       = filter (\<lambda>y. id_val y = k) (dedup xs)"
      by (auto intro: filter_cong)
    with False Cons.IH show ?thesis by (simp add: dedup_Cons)
  qed
qed

lemma find_append: "find P (xs @ ys) = (case find P xs of Some x \<Rightarrow> Some x | None \<Rightarrow> find P ys)"
  by (induction xs) auto

lemma set_insert_by: "set (insert_by cmp x ys) = insert x (set ys)"
  by (induction ys) auto

lemma length_insert_by: "length (insert_by cmp x ys) = Suc (length ys)"
  by (induction ys) auto

lemma set_js_sort: "set (js_sort cmp xs) = set xs"
  by (induction xs) (simp_all add: js_sort_def set_insert_by)

lemma length_js_sort: "length (js_sort cmp xs) = length xs"
  by (induction xs) (simp_all add: js_sort_def length_insert_by)

lemma distinct_map_insert_by:
  "distinct (map f (insert_by cmp x ys)) \<longleftrightarrow> f x \<notin> f ` set ys \<and> distinct (map f ys)"
  by (induction ys) (auto simp: set_insert_by)

lemma distinct_map_js_sort: "distinct (map f (js_sort cmp xs)) \<longleftrightarrow> distinct (map f xs)"
  by (induction xs) (simp_all add: js_sort_def distinct_map_insert_by set_js_sort[unfolded js_sort_def])

lemma num_le_Val: "a \<noteq> NaN \<Longrightarrow> b \<noteq> NaN \<Longrightarrow> \<exists>x y. a = Val x \<and> b = Val y"
  by (cases a; cases b) simp_all

lemma not_after_scores:
  assumes "relevanceScore x \<noteq> NaN" "relevanceScore y \<noteq> NaN"
  shows "not_after (js_sub (relevanceScore y) (relevanceScore x))
       \<longleftrightarrow> num_le (relevanceScore y) (relevanceScore x)"
proof -
  obtain a b where "relevanceScore x = Val a" "relevanceScore y = Val b"
    using num_le_Val[OF assms] by blast
  then show ?thesis using not_after_sub[of b a] by simp
qed

lemma num_le_trans: "num_le a b \<Longrightarrow> num_le b c \<Longrightarrow> num_le a c"
  by (cases a; cases b; cases c) (auto intro: ext_le_trans)

lemma num_le_linear: "a \<noteq> NaN \<Longrightarrow> b \<noteq> NaN \<Longrightarrow> num_le a b \<or> num_le b a"
  using ext_le_linear by (cases a; cases b) auto

text \<open>Where no score is NaN, the sort puts the scores in descending order.\<close>

lemma descending_insert:
  assumes "descending ys" "relevanceScore x \<noteq> NaN" "\<forall>y\<in>set ys. relevanceScore y \<noteq> NaN"
  shows "descending (insert_by (\<lambda>a b. js_sub (relevanceScore b) (relevanceScore a)) x ys)"
  using assms
proof (induction ys)
  case Nil
  then show ?case by (simp add: descending_def)
next
  case (Cons y ys)
  from Cons.prems have y: "relevanceScore y \<noteq> NaN" by simp
  from Cons.prems have tail: "descending ys" "\<forall>z\<in>set ys. relevanceScore z \<noteq> NaN"
    and below: "\<forall>z\<in>set ys. num_le (relevanceScore z) (relevanceScore y)"
    by (simp_all add: descending_def)
  show ?case
  proof (cases "num_le (relevanceScore y) (relevanceScore x)")
    case True
    then have "\<forall>z\<in>set ys. num_le (relevanceScore z) (relevanceScore x)"
      using below num_le_trans by blast
    with True Cons.prems show ?thesis
      by (simp add: not_after_scores[OF Cons.prems(2) y] descending_def)
  next
    case False
    then have "num_le (relevanceScore x) (relevanceScore y)"
      using num_le_linear[OF Cons.prems(2) y] by blast
    moreover have "descending (insert_by (\<lambda>a b. js_sub (relevanceScore b) (relevanceScore a)) x ys)"
      using tail Cons.prems(2) by (intro Cons.IH)
    ultimately show ?thesis
      using False below
      by (simp add: not_after_scores[OF Cons.prems(2) y] descending_def set_insert_by)
  qed
qed

lemma descending_js_sort:
  assumes "\<forall>x\<in>set xs. relevanceScore x \<noteq> NaN"
  shows "descending (js_sort (\<lambda>a b. js_sub (relevanceScore b) (relevanceScore a)) xs)"
  using assms
proof (induction xs)
  case Nil
  show ?case by (simp add: js_sort_def descending_def)
next
  case (Cons x xs)
  then have "descending (foldr (insert_by (\<lambda>a b. js_sub (relevanceScore b) (relevanceScore a))) xs [])"
    by (simp add: js_sort_def)
  moreover have "\<forall>y\<in>set (foldr (insert_by (\<lambda>a b. js_sub (relevanceScore b) (relevanceScore a))) xs []).
      relevanceScore y \<noteq> NaN"
    using Cons.prems set_js_sort[of "\<lambda>a b. js_sub (relevanceScore b) (relevanceScore a)" xs]
    by (simp add: js_sort_def)
  ultimately show ?case using Cons.prems by (simp add: js_sort_def descending_insert)
qed

lemma js_slice_take: "js_slice 0 stop xs = take (slice_count stop (length xs)) xs"
  by (auto simp: js_slice_def slice_count_def Let_def max_def min_def)

lemma length_js_slice: "length (js_slice 0 stop xs) = slice_count stop (length xs)"
  by (auto simp: js_slice_take slice_count_def)

lemma with_score_fields:
  "id_val (with_score s c) = id_val c" "vote_count (with_score s c) = vote_count c"
  "relevanceScore (with_score s c) = calculateRelevanceScore (Some c) s"
  by (simp_all add: with_score_def candidate.defs ranked.defs)

lemma those_Some_iff: "those xs = Some ys \<longleftrightarrow> xs = map Some ys"
  by (induction xs arbitrary: ys) (auto split: option.splits)

lemma those_None_iff: "those xs = None \<longleftrightarrow> None \<in> set xs"
  by (induction xs) (auto split: option.splits)

lemma rank_descending:
  assumes "\<forall>c\<in>set items. calculateRelevanceScore (Some c) src \<noteq> NaN"
  shows "descending (merge_filter_rank items src mn mx)"
proof -
  have "\<forall>r\<in>set (map (with_score src)
      (filter (\<lambda>item. js_ge (vote_count item) (Num (Fin (of_int mn)))) (dedup items))).
      relevanceScore r \<noteq> NaN"
    using assms dedup_subset[of items] by (auto simp: with_score_fields)
  then have "descending (js_sort (\<lambda>a b. js_sub (relevanceScore b) (relevanceScore a))
      (map (with_score src)
        (filter (\<lambda>item. js_ge (vote_count item) (Num (Fin (of_int mn)))) (dedup items))))"
    by (rule descending_js_sort)
  then show ?thesis
    unfolding merge_filter_rank_def js_slice_take descending_def by (rule sorted_wrt_take)
qed

lemma rank_distinct: "distinct (map id_val (merge_filter_rank items src mn mx))"
proof -
  have "map id_val (map (with_score src) ys) = map id_val ys" for ys
    by (simp add: with_score_fields o_def)
  then have "distinct (map id_val (map (with_score src) (filter (\<lambda>item. js_ge (vote_count item) (Num (Fin (of_int mn)))) (dedup items))))"
    by (simp only: distinct_map_filter dedup_distinct)
  then have "distinct (map id_val (js_sort (\<lambda>a b. js_sub (relevanceScore b) (relevanceScore a)) (map (with_score src) (filter (\<lambda>item. js_ge (vote_count item) (Num (Fin (of_int mn)))) (dedup items)))))"
    by (simp only: distinct_map_js_sort)
  then show ?thesis
    unfolding merge_filter_rank_def js_slice_take by (simp only: take_map[symmetric] distinct_take)
qed

lemma rank_votes:
  assumes "r \<in> set (merge_filter_rank items src mn mx)"
  shows "js_ge (vote_count r) (Num (Fin (of_int mn)))"
proof -
  from assms have "r \<in> set (js_sort (\<lambda>a b. js_sub (relevanceScore b) (relevanceScore a))
                  (map (with_score src)
                    (filter (\<lambda>item. js_ge (vote_count item) (Num (Fin (of_int mn))))
                      (dedup items))))"
    unfolding merge_filter_rank_def js_slice_take by (rule in_set_takeD)
  then show ?thesis by (auto simp: set_js_sort with_score_fields)
qed

lemma js_ge_Num:
  "js_ge v (Number m) \<longleftrightarrow> (\<exists>x. v = Num x \<and> ext_le (Fin m) x) \<or> (v = Null \<and> m \<le> 0)"
  by (cases v) (simp_all add: js_ge_def)

lemma rank_length: "0 \<le> mx \<Longrightarrow> int (length (merge_filter_rank items src mn mx)) \<le> mx"
  unfolding merge_filter_rank_def length_js_slice by (simp add: slice_count_def)

lemma those_map_Some: "those (map Some ys) = Some ys"
  by (induction ys) simp_all

lemma allRecommendations_Inr:
  "allRecommendations similar recommended src mn mx = Inr out \<longleftrightarrow>
     (\<exists>items. similar @ recommended = map Some items \<and> out = merge_filter_rank items src mn mx)"
proof (cases "those (similar @ recommended)")
  case None
  then have "similar @ recommended \<noteq> map Some items" for items
    using those_map_Some[of items] by auto
  with None show ?thesis by (simp add: allRecommendations_def)
next
  case (Some items)
  then have "similar @ recommended = map Some items" by (simp only: those_Some_iff)
  with Some show ?thesis by (auto simp: allRecommendations_def)
qed

lemma allRecommendations_Inl:
  "allRecommendations similar recommended src mn mx = Inl e \<longleftrightarrow>
     e = TypeError \<and> None \<in> set (similar @ recommended)"
proof -
  have "those (similar @ recommended) = None \<longleftrightarrow> None \<in> set (similar @ recommended)"
    by (rule those_None_iff)
  then show ?thesis
    by (cases "those (similar @ recommended)") (auto simp: allRecommendations_def)
qed

lemma example_env_values:
  "MINIMUM_VOTE_COUNT example_env = 50" "MAX_RECOMMENDATIONS example_env = 30"
  "MINIMUM_VOTE_COUNT example_env_negative = 50" "MAX_RECOMMENDATIONS example_env_negative = - 1"
  "MINIMUM_VOTE_COUNT example_env_lenient = - 5" "MAX_RECOMMENDATIONS example_env_lenient = 30"
  by (simp_all add: MINIMUM_VOTE_COUNT_def MAX_RECOMMENDATIONS_def parsed_or_def example_env_def
      example_env_negative_def example_env_lenient_def)

lemmas example_evaluation =
  allRecommendations_def merge_filter_rank_def dedup_Cons dedup_Nil example_item_fields js_ge_def
  js_sort_def js_slice_take slice_count_def with_score_fields example_score example_components
  popularityScore_infinite overflow_small

text \<open>
  The scenario of the specification: one similar item, and two recommended ones, of
  which the first repeats the similar item's identifier and the second has 10 votes.
\<close>

lemma example_scenario:
  "allRecommendations [Some (example_item 1 (Number 10) (Number 8) (Number 100))]
     [Some (example_item 1 (Number 3) (Number 2) (Number 500)),
      Some (example_item 2 (Number 10) (Number 8) (Number 10))]
     (Some example_source) 50 30
   = Inr [with_score (Some example_source) (example_item 1 (Number 10) (Number 8) (Number 100))]"
  by (simp add: example_evaluation)

lemma example_two_items:
  "merge_filter_rank
     [example_item 2 (Number 5) (Number 6) (Number 200),
      example_item 1 (Number 10) (Number 8) (Number 100)]
     (Some example_source) 50 mx
   = js_slice 0 mx
       [with_score (Some example_source) (example_item 1 (Number 10) (Number 8) (Number 100)),
        with_score (Some example_source) (example_item 2 (Number 5) (Number 6) (Number 200))]"
  by (simp add: example_evaluation del: js_slice_take)

lemma example_null_votes:
  "allRecommendations [Some (example_item 1 (Number 10) (Number 8) Null)] []
     (Some example_source) (- 5) 30
   = Inr [with_score (Some example_source) (example_item 1 (Number 10) (Number 8) Null)]"
  by (simp add: example_evaluation)

lemma example_nan_score:
  "allRecommendations
     [Some (example_item 1 (Number 5) (Number 6) (Number 100)),
      Some (example_item 2 (Num PosInf) (Number 6) (Number 100))]
     [Some (example_item 3 (Number 5) (Number 9) (Number 100))]
     (Some example_source_infinite) 50 30
   = Inr [with_score (Some example_source_infinite) (example_item 1 (Number 5) (Number 6) (Number 100)),
          with_score (Some example_source_infinite) (example_item 2 (Num PosInf) (Number 6) (Number 100)),
          with_score (Some example_source_infinite) (example_item 3 (Number 5) (Number 9) (Number 100))]"
  by (simp add: example_evaluation)

text \<open>
  C1, as stated, fails in three ways. A negative maximum, which the environment can set
  (\<^verbatim>\<open>MAX_RECOMMENDATIONS=-1\<close>): \<^verbatim>\<open>slice(0, -1)\<close> drops the last element only, so of two
  items that pass the filter one is returned, and 1 is not at most -1. A vote count
  that is null, under a minimum that is not positive (\<^verbatim>\<open>MINIMUM_VOTE_COUNT=-5\<close>):
  \<^verbatim>\<open>null >= -5\<close> holds, null converting to 0, so an item that has no vote count is
  returned. A score that is NaN (the popularity of a candidate and of the source both
  the literal \<^verbatim>\<open>1e400\<close>): the comparator returns NaN next to that item, and the items
  of scores 30, NaN and 45 stay in this order.
\<close>

theorem pipeline_negative_maximum_counterexample:
  "MAX_RECOMMENDATIONS example_env_negative = - 1
   \<and> allRecommendations [Some (example_item 2 (Number 5) (Number 6) (Number 200))]
        [Some (example_item 1 (Number 10) (Number 8) (Number 100))] (Some example_source)
        (MINIMUM_VOTE_COUNT example_env_negative) (MAX_RECOMMENDATIONS example_env_negative)
      = Inr [with_score (Some example_source) (example_item 1 (Number 10) (Number 8) (Number 100))]
   \<and> \<not> int (length [with_score (Some example_source)
                       (example_item 1 (Number 10) (Number 8) (Number 100))])
        \<le> MAX_RECOMMENDATIONS example_env_negative
   \<and> MINIMUM_VOTE_COUNT example_env_lenient = - 5
   \<and> allRecommendations [Some (example_item 1 (Number 10) (Number 8) Null)] []
        (Some example_source)
        (MINIMUM_VOTE_COUNT example_env_lenient) (MAX_RECOMMENDATIONS example_env_lenient)
      = Inr [with_score (Some example_source) (example_item 1 (Number 10) (Number 8) Null)]
   \<and> vote_count (with_score (Some example_source) (example_item 1 (Number 10) (Number 8) Null))
      = Null
   \<and> allRecommendations
        [Some (example_item 1 (Number 5) (Number 6) (Number 100)),
         Some (example_item 2 (Num PosInf) (Number 6) (Number 100))]
        [Some (example_item 3 (Number 5) (Number 9) (Number 100))]
        (Some example_source_infinite)
        (MINIMUM_VOTE_COUNT example_env) (MAX_RECOMMENDATIONS example_env)
      = Inr [with_score (Some example_source_infinite)
               (example_item 1 (Number 5) (Number 6) (Number 100)),
             with_score (Some example_source_infinite)
               (example_item 2 (Num PosInf) (Number 6) (Number 100)),
             with_score (Some example_source_infinite)
               (example_item 3 (Number 5) (Number 9) (Number 100))]
   \<and> map relevanceScore
        [with_score (Some example_source_infinite)
           (example_item 1 (Number 5) (Number 6) (Number 100)),
         with_score (Some example_source_infinite)
           (example_item 2 (Num PosInf) (Number 6) (Number 100)),
         with_score (Some example_source_infinite)
           (example_item 3 (Number 5) (Number 9) (Number 100))]
      = [Score 30, NaN, Score 45]
   \<and> \<not> descending
        [with_score (Some example_source_infinite)
           (example_item 1 (Number 5) (Number 6) (Number 100)),
         with_score (Some example_source_infinite)
           (example_item 2 (Num PosInf) (Number 6) (Number 100)),
         with_score (Some example_source_infinite)
           (example_item 3 (Number 5) (Number 9) (Number 100))]"
proof -
  have a: "allRecommendations [Some (example_item 2 (Number 5) (Number 6) (Number 200))]
        [Some (example_item 1 (Number 10) (Number 8) (Number 100))] (Some example_source) 50 (- 1)
      = Inr [with_score (Some example_source) (example_item 1 (Number 10) (Number 8) (Number 100))]"
    by (simp add: allRecommendations_def example_two_items js_slice_take slice_count_def)
  have s: "map relevanceScore
        [with_score (Some example_source_infinite)
           (example_item 1 (Number 5) (Number 6) (Number 100)),
         with_score (Some example_source_infinite)
           (example_item 2 (Num PosInf) (Number 6) (Number 100)),
         with_score (Some example_source_infinite)
           (example_item 3 (Number 5) (Number 9) (Number 100))]
      = [Score 30, NaN, Score 45]"
    by (simp add: with_score_fields example_score example_components popularityScore_infinite
        overflow_small)
  have d: "\<not> descending
        [with_score (Some example_source_infinite)
           (example_item 1 (Number 5) (Number 6) (Number 100)),
         with_score (Some example_source_infinite)
           (example_item 2 (Num PosInf) (Number 6) (Number 100)),
         with_score (Some example_source_infinite)
           (example_item 3 (Number 5) (Number 9) (Number 100))]"
    using s by (simp add: descending_def)
  show ?thesis
    by (intro conjI, simp_all only: example_env_values a example_null_votes example_nan_score s)
      (simp_all add: with_score_fields example_item_fields d)
qed

text \<open>
  C1, amended: for every pair of fetched candidate lists, every source item and every
  configured minimum vote count and maximum count, the output sequence of the pipeline
  contains no two records with the same identifier, and contains only items whose vote
  count is a number at least the configured minimum or, when that minimum is not
  positive, null; when the scorer returns NaN for none of the fetched candidates, the
  output is sorted by relevanceScore descending; when the configured maximum is not
  negative, the length of the output is at most that maximum.
\<close>

theorem pipeline_invariant:
  assumes "allRecommendations similar recommended sourceDetails minimum_vote_count
             max_recommendations = Inr out"
  shows "((\<forall>c. Some c \<in> set (similar @ recommended) \<longrightarrow>
             calculateRelevanceScore (Some c) sourceDetails \<noteq> NaN) \<longrightarrow>
          descending out)
       \<and> distinct (map id_val out)
       \<and> (\<forall>r\<in>set out.
            (\<exists>v. vote_count r = Num v \<and> ext_le (Fin (real_of_int minimum_vote_count)) v)
            \<or> (vote_count r = Null \<and> minimum_vote_count \<le> 0))
       \<and> (0 \<le> max_recommendations \<longrightarrow> int (length out) \<le> max_recommendations)"
proof -
  from assms obtain items where items: "similar @ recommended = map Some items"
    and out: "out = merge_filter_rank items sourceDetails minimum_vote_count max_recommendations"
    by (auto simp: allRecommendations_Inr)
  have sorted: "descending out"
    if "\<forall>c. Some c \<in> set (similar @ recommended) \<longrightarrow>
          calculateRelevanceScore (Some c) sourceDetails \<noteq> NaN"
    unfolding out using that by (intro rank_descending) (simp add: items)
  have votes: "(\<exists>v. vote_count r = Num v \<and> ext_le (Fin (real_of_int minimum_vote_count)) v)
            \<or> (vote_count r = Null \<and> minimum_vote_count \<le> 0)"
    if "r \<in> set out" for r
    using rank_votes[of r items sourceDetails minimum_vote_count max_recommendations] that
    by (simp add: out js_ge_Num)
  show ?thesis
    using sorted votes rank_distinct[of items sourceDetails minimum_vote_count max_recommendations]
      rank_length[of max_recommendations items sourceDetails minimum_vote_count]
    unfolding out[symmetric] by blast
qed

theorem pipeline_invariant_witness:
  "allRecommendations [Some (example_item 1 (Number 10) (Number 8) (Number 100))]
     [Some (example_item 1 (Number 3) (Number 2) (Number 500)),
      Some (example_item 2 (Number 10) (Number 8) (Number 10))]
     (Some example_source) 50 30
   = Inr [with_score (Some example_source) (example_item 1 (Number 10) (Number 8) (Number 100))]
   \<and> descending [with_score (Some example_source) (example_item 1 (Number 10) (Number 8) (Number 100))]
   \<and> distinct (map id_val
        [with_score (Some example_source) (example_item 1 (Number 10) (Number 8) (Number 100))])
   \<and> vote_count (with_score (Some example_source) (example_item 1 (Number 10) (Number 8) (Number 100)))
       = Number 100
   \<and> (0::int) \<le> 30
   \<and> int (length
        [with_score (Some example_source) (example_item 1 (Number 10) (Number 8) (Number 100))])
       \<le> 30"
proof -
  have h: "\<forall>c. Some c \<in> set ([Some (example_item 1 (Number 10) (Number 8) (Number 100))]
        @ [Some (example_item 1 (Number 3) (Number 2) (Number 500)),
           Some (example_item 2 (Number 10) (Number 8) (Number 10))]) \<longrightarrow>
      calculateRelevanceScore (Some c) (Some example_source) \<noteq> NaN"
    by (auto simp: example_score example_components overflow_small)
  have "descending
      [with_score (Some example_source) (example_item 1 (Number 10) (Number 8) (Number 100))]"
    using pipeline_invariant[OF example_scenario] h by blast
  then show ?thesis
    using pipeline_invariant[OF example_scenario] example_scenario
    by (simp add: with_score_fields example_item_fields)
qed

text \<open>
  C6: deduplication over the concatenation similar + recommended keeps exactly the first
  occurrence of each identifier. The surviving identifiers are pairwise distinct, and for
  every identifier \<open>k\<close> the survivors that carry it are: the first item of the similar
  list with that identifier when there is one; otherwise the first such item of the
  recommended list when there is one; otherwise none.
\<close>

theorem dedup_keeps_first_similar_wins:
  "distinct (map id_val (dedup (similar @ recommended)))
   \<and> filter (\<lambda>y. id_val y = k) (dedup (similar @ recommended)) =
       (case find (\<lambda>t. id_val t = k) similar of
          Some x \<Rightarrow> [x]
        | None \<Rightarrow> (case find (\<lambda>t. id_val t = k) recommended of Some y \<Rightarrow> [y] | None \<Rightarrow> []))"
  by (simp add: dedup_distinct dedup_first find_append split: option.splits)

theorem dedup_keeps_first_similar_wins_witness:
  "dedup ([example_item 1 (Number 10) (Number 8) (Number 100),
           example_item 2 (Number 1) (Number 1) (Number 1)]
       @ [example_item 1 (Number 3) (Number 2) (Number 500),
          example_item 3 (Number 1) (Number 1) (Number 1)])
     = [example_item 1 (Number 10) (Number 8) (Number 100),
        example_item 2 (Number 1) (Number 1) (Number 1),
        example_item 3 (Number 1) (Number 1) (Number 1)]
   \<and> filter (\<lambda>y. id_val y = Number 1)
       (dedup ([example_item 1 (Number 10) (Number 8) (Number 100),
                example_item 2 (Number 1) (Number 1) (Number 1)]
          @ [example_item 1 (Number 3) (Number 2) (Number 500),
             example_item 3 (Number 1) (Number 1) (Number 1)]))
     = [example_item 1 (Number 10) (Number 8) (Number 100)]"
proof -
  have "filter (\<lambda>y. id_val y = Number 1)
       (dedup ([example_item 1 (Number 10) (Number 8) (Number 100),
                example_item 2 (Number 1) (Number 1) (Number 1)]
          @ [example_item 1 (Number 3) (Number 2) (Number 500),
             example_item 3 (Number 1) (Number 1) (Number 1)]))
     = [example_item 1 (Number 10) (Number 8) (Number 100)]"
    using dedup_keeps_first_similar_wins[of
        "[example_item 1 (Number 10) (Number 8) (Number 100),
          example_item 2 (Number 1) (Number 1) (Number 1)]"
        "[example_item 1 (Number 3) (Number 2) (Number 500),
          example_item 3 (Number 1) (Number 1) (Number 1)]" "Number 1"]
    by (simp add: example_item_fields)
  then show ?thesis by (simp add: dedup_Cons dedup_Nil example_item_fields)
qed

text \<open>
  C10: a candidate whose \<^verbatim>\<open>vote_count\<close> property is absent never appears in the output of
  the pipeline, whatever the configured minimum vote count: \<^verbatim>\<open>undefined >= n\<close> is false
  for every number \<open>n\<close>. No record of the output lacks the property, and no input
  candidate that lacks it is among the output records.
\<close>

theorem absent_vote_count_excluded:
  assumes "allRecommendations similar recommended sourceDetails minimum_vote_count
             max_recommendations = Inr out"
  shows "(\<forall>r\<in>set out. vote_count r \<noteq> Undefined)
       \<and> (\<forall>c. vote_count c = Undefined \<longrightarrow> with_score sourceDetails c \<notin> set out)"
proof -
  from assms obtain items where
    out: "out = merge_filter_rank items sourceDetails minimum_vote_count max_recommendations"
    by (auto simp: allRecommendations_Inr)
  have present: "vote_count r \<noteq> Undefined" if "r \<in> set out" for r
    using rank_votes[of r items sourceDetails minimum_vote_count max_recommendations] that
    by (auto simp: out js_ge_def)
  have "with_score sourceDetails c \<notin> set out" if "vote_count c = Undefined" for c
    using present[of "with_score sourceDetails c"] that by (auto simp: with_score_fields)
  with present show ?thesis by blast
qed

lemma example_absent:
  "allRecommendations [Some (example_item 1 (Number 10) (Number 8) Undefined)]
     [Some (example_item 2 (Number 5) (Number 6) (Number 200))] (Some example_source) (- 5) 30
   = Inr [with_score (Some example_source) (example_item 2 (Number 5) (Number 6) (Number 200))]"
  by (simp add: example_evaluation)

theorem absent_vote_count_excluded_witness:
  "allRecommendations [Some (example_item 1 (Number 10) (Number 8) Undefined)]
     [Some (example_item 2 (Number 5) (Number 6) (Number 200))] (Some example_source) (- 5) 30
   = Inr [with_score (Some example_source) (example_item 2 (Number 5) (Number 6) (Number 200))]
   \<and> vote_count (example_item 1 (Number 10) (Number 8) Undefined) = Undefined
   \<and> with_score (Some example_source) (example_item 1 (Number 10) (Number 8) Undefined)
       \<notin> set [with_score (Some example_source) (example_item 2 (Number 5) (Number 6) (Number 200))]
   \<and> vote_count (with_score (Some example_source) (example_item 2 (Number 5) (Number 6) (Number 200)))
       \<noteq> Undefined"
  using absent_vote_count_excluded[OF example_absent] example_absent
  by (simp add: example_item_fields)

section \<open>Properties of the handler\<close>

text \<open>The three attempts of \<^verbatim>\<open>fetchWithRetry\<close>, written out.\<close>

lemma fetchWithRetry_unroll:
  "fetchWithRetry attempts =
     (case attempt_result (attempts 0) of
        Inr b \<Rightarrow> Inr b
      | Inl e0 \<Rightarrow>
          (case attempt_result (attempts 1) of
             Inr b \<Rightarrow> Inr b
           | Inl e1 \<Rightarrow> attempt_result (attempts 2)))"
proof -
  have l2: "fetchWithRetry_loop attempts 3 (Suc (Suc 0)) = attempt_result (attempts (Suc (Suc 0)))"
    by (subst fetchWithRetry_loop.simps) (simp split: sum.splits)
  have l1: "fetchWithRetry_loop attempts 3 (Suc 0) =
      (case attempt_result (attempts (Suc 0)) of
         Inr b \<Rightarrow> Inr b
       | Inl e \<Rightarrow> fetchWithRetry_loop attempts 3 (Suc (Suc 0)))"
    by (subst fetchWithRetry_loop.simps) (simp split: sum.splits)
  have l0: "fetchWithRetry_loop attempts 3 0 =
      (case attempt_result (attempts 0) of
         Inr b \<Rightarrow> Inr b
       | Inl e \<Rightarrow> fetchWithRetry_loop attempts 3 (Suc 0))"
    by (subst fetchWithRetry_loop.simps) (simp split: sum.splits)
  show ?thesis by (simp add: fetchWithRetry_def l0 l1 l2 numeral_2_eq_2 split: sum.splits)
qed

text \<open>A call fails exactly when all three attempts fail; the error is the last one.\<close>

lemma fetchWithRetry_Inl_iff:
  "fetchWithRetry attempts = Inl e \<longleftrightarrow>
     (\<exists>e0 e1. attempt_result (attempts 0) = Inl e0 \<and> attempt_result (attempts 1) = Inl e1
        \<and> attempt_result (attempts 2) = Inl e)"
  by (auto simp: fetchWithRetry_unroll split: sum.splits)

lemma fetchWithRetry_constant: "fetchWithRetry (\<lambda>i. a) = attempt_result a"
  by (simp add: fetchWithRetry_unroll split: sum.splits)

lemma handler_returns: "\<exists>streams. defineStreamHandler env h tmdb ty ident = Inr streams"
  by (simp add: defineStreamHandler_def split: sum.splits)

lemma handler_catch:
  "handler_try env h tmdb ty ident = Inl e \<Longrightarrow> defineStreamHandler env h tmdb ty ident = Inr []"
  by (simp add: defineStreamHandler_def)

lemma getTMDbId_failed: "getTMDbId_try tmdb imdbId ty = Inl e \<Longrightarrow> getTMDbId tmdb imdbId ty = Null"
  by (simp add: getTMDbId_def)

lemma handler_unresolved:
  "\<not> truthy (getTMDbId tmdb (baseId ident) ty) \<Longrightarrow> handler_try env h tmdb ty ident = Inr []"
  by (simp add: handler_try_def)

lemma handler_resolved:
  assumes "truthy (getTMDbId tmdb (baseId ident) ty)"
  shows "handler_try env h tmdb ty ident =
     (case fetchWithRetry (detail_endpoint tmdb (mediaType ty) (getTMDbId tmdb (baseId ident) ty)) of
        Inl e \<Rightarrow> Inl e
      | Inr sourceDetails \<Rightarrow>
          (case allRecommendations (getTMDbSimilar tmdb (getTMDbId tmdb (baseId ident) ty) ty)
                  (getTMDbRecommendations tmdb (getTMDbId tmdb (baseId ident) ty) ty) sourceDetails
                  (MINIMUM_VOTE_COUNT env) (MAX_RECOMMENDATIONS env) of
             Inl e \<Rightarrow> Inl e
           | Inr recs \<Rightarrow> Inr (map (stream_of h (mediaType ty)) recs)))"
  using assms by (simp add: handler_try_def Let_def)

lemma handler_detail_failed:
  assumes "fetchWithRetry (detail_endpoint tmdb (mediaType ty) (getTMDbId tmdb (baseId ident) ty)) = Inl e"
  shows "defineStreamHandler env h tmdb ty ident = Inr []"
proof (cases "truthy (getTMDbId tmdb (baseId ident) ty)")
  case True
  then show ?thesis using assms by (simp add: defineStreamHandler_def handler_resolved)
next
  case False
  then show ?thesis by (simp add: defineStreamHandler_def handler_unresolved)
qed

lemma handler_pipeline_failed:
  assumes "fetchWithRetry (detail_endpoint tmdb (mediaType ty) (getTMDbId tmdb (baseId ident) ty))
      = Inr sourceDetails"
    and "allRecommendations (getTMDbSimilar tmdb (getTMDbId tmdb (baseId ident) ty) ty)
          (getTMDbRecommendations tmdb (getTMDbId tmdb (baseId ident) ty) ty) sourceDetails
          (MINIMUM_VOTE_COUNT env) (MAX_RECOMMENDATIONS env) = Inl e"
  shows "defineStreamHandler env h tmdb ty ident = Inr []"
proof (cases "truthy (getTMDbId tmdb (baseId ident) ty)")
  case True
  then show ?thesis using assms by (simp add: defineStreamHandler_def handler_resolved)
next
  case False
  then show ?thesis by (simp add: defineStreamHandler_def handler_unresolved)
qed

lemma handler_resolved_result:
  assumes "truthy (getTMDbId tmdb (baseId ident) ty)"
    and "fetchWithRetry (detail_endpoint tmdb (mediaType ty) (getTMDbId tmdb (baseId ident) ty))
      = Inr sourceDetails"
  shows "defineStreamHandler env h tmdb ty ident =
     (case allRecommendations (getTMDbSimilar tmdb (getTMDbId tmdb (baseId ident) ty) ty)
             (getTMDbRecommendations tmdb (getTMDbId tmdb (baseId ident) ty) ty) sourceDetails
             (MINIMUM_VOTE_COUNT env) (MAX_RECOMMENDATIONS env) of
        Inl e \<Rightarrow> Inr []
      | Inr recs \<Rightarrow> Inr (map (stream_of h (mediaType ty)) recs))"
  using assms by (simp add: defineStreamHandler_def handler_resolved split: sum.splits)

lemma similar_failed:
  "fetchWithRetry (similar_endpoint tmdb (mediaType ty) tmdbId) = Inl e \<Longrightarrow>
   getTMDbSimilar tmdb tmdbId ty = []"
  by (simp add: getTMDbSimilar_def getTMDbSimilar_try_def)

lemma recommendations_failed:
  "fetchWithRetry (recommendations_endpoint tmdb (mediaType ty) tmdbId) = Inl e \<Longrightarrow>
   getTMDbRecommendations tmdb tmdbId ty = []"
  by (simp add: getTMDbRecommendations_def getTMDbRecommendations_try_def)

lemma allRecommendations_empty: "allRecommendations [] [] sourceDetails mn mx = Inr []"
  by (simp add: allRecommendations_def merge_filter_rank_def dedup_Nil js_sort_def js_slice_take)

lemma handler_nothing_fetched:
  assumes "getTMDbSimilar tmdb (getTMDbId tmdb (baseId ident) ty) ty = []"
    and "getTMDbRecommendations tmdb (getTMDbId tmdb (baseId ident) ty) ty = []"
  shows "defineStreamHandler env h tmdb ty ident = Inr []"
proof (cases "truthy (getTMDbId tmdb (baseId ident) ty)")
  case True
  then show ?thesis
    using assms
    by (simp add: defineStreamHandler_def handler_resolved allRecommendations_empty
        split: sum.splits)
next
  case False
  then show ?thesis by (simp add: defineStreamHandler_def handler_unresolved)
qed

text \<open>The calls of the example providers.\<close>

lemma example_provider_calls:
  "fetchWithRetry (find_endpoint (example_provider f d s r) imdbId) = attempt_result f"
  "fetchWithRetry (detail_endpoint (example_provider f d s r) media tmdbId) = attempt_result d"
  "fetchWithRetry (similar_endpoint (example_provider f d s r) media tmdbId) = attempt_result s"
  "fetchWithRetry (recommendations_endpoint (example_provider f d s r) media tmdbId)
     = attempt_result r"
  by (simp_all add: example_provider_def fetchWithRetry_constant)

lemma example_found_id:
  "getTMDbId_try (example_provider example_found d s r) imdbId ''movie'' = Inr (Number 603)"
  "getTMDbId (example_provider example_found d s r) imdbId ''movie'' = Number 603"
  by (simp_all add: getTMDbId_def getTMDbId_try_def example_provider_calls example_found_def
      example_source_def example_item_fields)

lemma example_list_fetched:
  "getTMDbSimilar (example_provider f d (example_list xs) r) tmdbId ty = map Some xs"
  "getTMDbRecommendations (example_provider f d s (example_list xs)) tmdbId ty = map Some xs"
  by (simp_all add: getTMDbSimilar_def getTMDbSimilar_try_def getTMDbRecommendations_def
      getTMDbRecommendations_try_def example_provider_calls example_list_def results_or_empty_def)

lemma example_one_item:
  "allRecommendations [] [Some (example_item 2 (Number 5) (Number 6) (Number 200))] (Some example_source) 50 30
   = Inr [with_score (Some example_source) (example_item 2 (Number 5) (Number 6) (Number 200))]"
  "allRecommendations [Some (example_item 2 (Number 5) (Number 6) (Number 200))] [] (Some example_source) 50 30
   = Inr [with_score (Some example_source) (example_item 2 (Number 5) (Number 6) (Number 200))]"
  by (simp_all add: example_evaluation)

text \<open>
  C2: for every media kind and identifier text, every environment and every behaviour of
  the provider in which each attempt settles, the handler returns a sequence of stream
  records and raises nothing. Every exception raised inside its \<^verbatim>\<open>try\<close> ends in the
  empty sequence, and so does each failure on the way: the identifier lookup failing,
  the call for the source details failing after its retries, and a TypeError of the
  pipeline on a null entry.
\<close>

theorem handler_never_raises:
  "(\<exists>streams. defineStreamHandler env h tmdb ty ident = Inr streams)
   \<and> (\<forall>e. handler_try env h tmdb ty ident = Inl e \<longrightarrow>
         defineStreamHandler env h tmdb ty ident = Inr [])
   \<and> (\<forall>e. getTMDbId_try tmdb (baseId ident) ty = Inl e \<longrightarrow>
         defineStreamHandler env h tmdb ty ident = Inr [])
   \<and> (\<forall>e. fetchWithRetry (detail_endpoint tmdb (mediaType ty) (getTMDbId tmdb (baseId ident) ty))
           = Inl e \<longrightarrow>
         defineStreamHandler env h tmdb ty ident = Inr [])
   \<and> (\<forall>sourceDetails e.
         fetchWithRetry (detail_endpoint tmdb (mediaType ty) (getTMDbId tmdb (baseId ident) ty))
           = Inr sourceDetails
         \<and> allRecommendations (getTMDbSimilar tmdb (getTMDbId tmdb (baseId ident) ty) ty)
             (getTMDbRecommendations tmdb (getTMDbId tmdb (baseId ident) ty) ty) sourceDetails
             (MINIMUM_VOTE_COUNT env) (MAX_RECOMMENDATIONS env) = Inl e \<longrightarrow>
         defineStreamHandler env h tmdb ty ident = Inr [])"
proof (intro conjI allI impI)
  show "\<exists>streams. defineStreamHandler env h tmdb ty ident = Inr streams"
    by (rule handler_returns)
next
  fix e assume "handler_try env h tmdb ty ident = Inl e"
  then show "defineStreamHandler env h tmdb ty ident = Inr []" by (rule handler_catch)
next
  fix e assume "getTMDbId_try tmdb (baseId ident) ty = Inl e"
  then have "\<not> truthy (getTMDbId tmdb (baseId ident) ty)" by (simp add: getTMDbId_failed)
  then show "defineStreamHandler env h tmdb ty ident = Inr []"
    by (simp add: defineStreamHandler_def handler_unresolved)
next
  fix e
  assume "fetchWithRetry (detail_endpoint tmdb (mediaType ty) (getTMDbId tmdb (baseId ident) ty))
      = Inl e"
  then show "defineStreamHandler env h tmdb ty ident = Inr []" by (rule handler_detail_failed)
next
  fix sourceDetails e
  assume "fetchWithRetry (detail_endpoint tmdb (mediaType ty) (getTMDbId tmdb (baseId ident) ty))
           = Inr sourceDetails
         \<and> allRecommendations (getTMDbSimilar tmdb (getTMDbId tmdb (baseId ident) ty) ty)
             (getTMDbRecommendations tmdb (getTMDbId tmdb (baseId ident) ty) ty) sourceDetails
             (MINIMUM_VOTE_COUNT env) (MAX_RECOMMENDATIONS env) = Inl e"
  then show "defineStreamHandler env h tmdb ty ident = Inr []"
    using handler_pipeline_failed by blast
qed

text \<open>
  Four providers: one that is down; one that resolves the identifier and then answers
  the call for the details with status 500; one whose list of similar titles holds a
  null entry; one that answers every call.
\<close>

theorem handler_never_raises_witness:
  "getTMDbId_try (example_provider NetworkFailure NetworkFailure NetworkFailure NetworkFailure)
       (baseId ''tt0133093'') ''movie'' = Inl NetworkError
   \<and> defineStreamHandler example_env example_host
       (example_provider NetworkFailure NetworkFailure NetworkFailure NetworkFailure)
       ''movie'' ''tt0133093'' = Inr []
   \<and> handler_try example_env example_host
       (example_provider example_found (Response 500 NotJson) (example_list []) (example_list []))
       ''movie'' ''tt0133093'' = Inl (HttpError 500)
   \<and> defineStreamHandler example_env example_host
       (example_provider example_found (Response 500 NotJson) (example_list []) (example_list []))
       ''movie'' ''tt0133093'' = Inr []
   \<and> handler_try example_env example_host
       (example_provider example_found (Response 200 (Json (Some example_source)))
          (Response 200 (Json (Some \<lparr>results = Some [None]\<rparr>))) (example_list []))
       ''movie'' ''tt0133093'' = Inl TypeError
   \<and> defineStreamHandler example_env example_host
       (example_provider example_found (Response 200 (Json (Some example_source)))
          (Response 200 (Json (Some \<lparr>results = Some [None]\<rparr>))) (example_list []))
       ''movie'' ''tt0133093'' = Inr []
   \<and> defineStreamHandler example_env example_host
       (example_provider example_found (Response 200 (Json (Some example_source))) (example_list [])
          (example_list [example_item 2 (Number 5) (Number 6) (Number 200)]))
       ''movie'' ''tt0133093''
     = Inr [stream_of example_host ''movie''
              (with_score (Some example_source) (example_item 2 (Number 5) (Number 6) (Number 200)))]"
proof -
  let ?down = "example_provider NetworkFailure NetworkFailure NetworkFailure NetworkFailure"
  let ?no_detail =
    "example_provider example_found (Response 500 NotJson) (example_list []) (example_list [])"
  let ?null_entry =
    "example_provider example_found (Response 200 (Json (Some example_source)))
       (Response 200 (Json (Some \<lparr>results = Some [None]\<rparr>))) (example_list [])"
  let ?up =
    "example_provider example_found (Response 200 (Json (Some example_source))) (example_list [])
       (example_list [example_item 2 (Number 5) (Number 6) (Number 200)])"
  have a: "getTMDbId_try ?down (baseId ''tt0133093'') ''movie'' = Inl NetworkError"
    by (simp add: getTMDbId_try_def example_provider_calls)
  have a': "defineStreamHandler example_env example_host ?down ''movie'' ''tt0133093'' = Inr []"
    using handler_never_raises[of example_env example_host ?down "''movie''" "''tt0133093''"] a
    by blast
  have b: "handler_try example_env example_host ?no_detail ''movie'' ''tt0133093''
      = Inl (HttpError 500)"
    by (simp add: handler_resolved example_found_id example_provider_calls)
  have b': "defineStreamHandler example_env example_host ?no_detail ''movie'' ''tt0133093'' = Inr []"
    using handler_never_raises[of example_env example_host ?no_detail "''movie''" "''tt0133093''"] b
    by blast
  have "getTMDbSimilar ?null_entry (Number 603) ''movie'' = [None]"
    by (simp add: getTMDbSimilar_def getTMDbSimilar_try_def example_provider_calls
        results_or_empty_def)
  then have c: "handler_try example_env example_host ?null_entry ''movie'' ''tt0133093''
      = Inl TypeError"
    by (simp add: handler_resolved example_found_id example_provider_calls example_list_fetched
        allRecommendations_def)
  have c': "defineStreamHandler example_env example_host ?null_entry ''movie'' ''tt0133093'' = Inr []"
    using handler_never_raises[of example_env example_host ?null_entry "''movie''" "''tt0133093''"] c
    by blast
  have d: "defineStreamHandler example_env example_host ?up ''movie'' ''tt0133093''
     = Inr [stream_of example_host ''movie''
              (with_score (Some example_source) (example_item 2 (Number 5) (Number 6) (Number 200)))]"
    by (simp add: defineStreamHandler_def handler_resolved example_found_id example_provider_calls
        example_list_fetched example_env_values example_one_item mediaType_def)
  from a a' b b' c c' d show ?thesis by (intro conjI)
qed

text \<open>
  C7: when the lookup succeeds and its body has no result for the requested media kind
  (the array is absent or empty), the resolver returns null from inside its \<^verbatim>\<open>try\<close>,
  without raising, the handler leaves its own \<^verbatim>\<open>try\<close> through the early
  \<^verbatim>\<open>return { streams: [] }\<close>, again without raising, and the result is the empty list.
\<close>

theorem not_found_is_empty_result:
  assumes "fetchWithRetry (find_endpoint tmdb (baseId ident)) = Inr (Some data)"
    and "(if ty = ''movie'' then movie_results data else tv_results data) = None
       \<or> (if ty = ''movie'' then movie_results data else tv_results data) = Some []"
  shows "getTMDbId_try tmdb (baseId ident) ty = Inr Null
       \<and> handler_try env h tmdb ty ident = Inr []
       \<and> defineStreamHandler env h tmdb ty ident = Inr []"
proof -
  have a: "getTMDbId_try tmdb (baseId ident) ty = Inr Null"
    using assms by (auto simp: getTMDbId_try_def)
  then have "\<not> truthy (getTMDbId tmdb (baseId ident) ty)"
    by (simp add: getTMDbId_def)
  then have b: "handler_try env h tmdb ty ident = Inr []"
    by (rule handler_unresolved)
  then have "defineStreamHandler env h tmdb ty ident = Inr []"
    by (simp add: defineStreamHandler_def)
  with a b show ?thesis by simp
qed

theorem not_found_is_empty_result_witness:
  "fetchWithRetry (find_endpoint
       (example_provider (Response 200 (Json (Some \<lparr>movie_results = Some [], tv_results = Some [Some example_source]\<rparr>)))
          (Response 200 (Json (Some example_source))) (example_list []) (example_list []))
       (baseId ''tt0133093''))
     = Inr (Some \<lparr>movie_results = Some [], tv_results = Some [Some example_source]\<rparr>)
   \<and> movie_results \<lparr>movie_results = Some [], tv_results = Some [Some example_source]\<rparr> = Some []
   \<and> getTMDbId_try
       (example_provider (Response 200 (Json (Some \<lparr>movie_results = Some [], tv_results = Some [Some example_source]\<rparr>)))
          (Response 200 (Json (Some example_source))) (example_list []) (example_list []))
       (baseId ''tt0133093'') ''movie'' = Inr Null
   \<and> handler_try example_env example_host
       (example_provider (Response 200 (Json (Some \<lparr>movie_results = Some [], tv_results = Some [Some example_source]\<rparr>)))
          (Response 200 (Json (Some example_source))) (example_list []) (example_list []))
       ''movie'' ''tt0133093'' = Inr []
   \<and> defineStreamHandler example_env example_host
       (example_provider (Response 200 (Json (Some \<lparr>movie_results = Some [], tv_results = Some [Some example_source]\<rparr>)))
          (Response 200 (Json (Some example_source))) (example_list []) (example_list []))
       ''movie'' ''tt0133093'' = Inr []"
proof -
  let ?data = "\<lparr>movie_results = Some [], tv_results = Some [Some example_source]\<rparr>"
  let ?tmdb = "example_provider (Response 200 (Json (Some ?data))) (Response 200 (Json (Some example_source)))
      (example_list []) (example_list [])"
  have a: "fetchWithRetry (find_endpoint ?tmdb (baseId ''tt0133093'')) = Inr (Some ?data)"
    by (simp add: example_provider_calls)
  have b: "(if ''movie'' = ''movie'' then movie_results ?data else tv_results ?data) = None
       \<or> (if ''movie'' = ''movie'' then movie_results ?data else tv_results ?data) = Some []"
    by simp
  have c: "movie_results ?data = Some []" by simp
  from a c not_found_is_empty_result[OF a b, of example_env example_host]
  show ?thesis by (intro conjI) simp_all
qed

text \<open>
  C8: when the call of a candidate fetcher fails after its retries (all three attempts
  fail), the fetcher returns the empty list. If the identifier has been resolved and the
  source details fetched, the handler then returns what the pipeline makes of the other
  fetcher's list alone. If both calls fail, the handler returns the empty stream list.
\<close>

theorem fetcher_failure_gives_empty_source:
  "(fetchWithRetry (similar_endpoint tmdb (mediaType ty) tmdbId) = Inl e \<longrightarrow>
      getTMDbSimilar tmdb tmdbId ty = [])
   \<and> (fetchWithRetry (recommendations_endpoint tmdb (mediaType ty) tmdbId) = Inl e' \<longrightarrow>
      getTMDbRecommendations tmdb tmdbId ty = [])
   \<and> (tmdbId = getTMDbId tmdb (baseId ident) ty \<and> truthy tmdbId
      \<and> fetchWithRetry (detail_endpoint tmdb (mediaType ty) tmdbId) = Inr sourceDetails
      \<and> fetchWithRetry (similar_endpoint tmdb (mediaType ty) tmdbId) = Inl e \<longrightarrow>
      defineStreamHandler env h tmdb ty ident =
        (case allRecommendations [] (getTMDbRecommendations tmdb tmdbId ty) sourceDetails
                (MINIMUM_VOTE_COUNT env) (MAX_RECOMMENDATIONS env) of
           Inl x \<Rightarrow> Inr []
         | Inr recs \<Rightarrow> Inr (map (stream_of h (mediaType ty)) recs)))
   \<and> (tmdbId = getTMDbId tmdb (baseId ident) ty \<and> truthy tmdbId
      \<and> fetchWithRetry (detail_endpoint tmdb (mediaType ty) tmdbId) = Inr sourceDetails
      \<and> fetchWithRetry (recommendations_endpoint tmdb (mediaType ty) tmdbId) = Inl e' \<longrightarrow>
      defineStreamHandler env h tmdb ty ident =
        (case allRecommendations (getTMDbSimilar tmdb tmdbId ty) [] sourceDetails
                (MINIMUM_VOTE_COUNT env) (MAX_RECOMMENDATIONS env) of
           Inl x \<Rightarrow> Inr []
         | Inr recs \<Rightarrow> Inr (map (stream_of h (mediaType ty)) recs)))
   \<and> (tmdbId = getTMDbId tmdb (baseId ident) ty
      \<and> fetchWithRetry (similar_endpoint tmdb (mediaType ty) tmdbId) = Inl e
      \<and> fetchWithRetry (recommendations_endpoint tmdb (mediaType ty) tmdbId) = Inl e' \<longrightarrow>
      defineStreamHandler env h tmdb ty ident = Inr [])"
proof (intro conjI impI)
  assume "fetchWithRetry (similar_endpoint tmdb (mediaType ty) tmdbId) = Inl e"
  then show "getTMDbSimilar tmdb tmdbId ty = []" by (rule similar_failed)
next
  assume "fetchWithRetry (recommendations_endpoint tmdb (mediaType ty) tmdbId) = Inl e'"
  then show "getTMDbRecommendations tmdb tmdbId ty = []" by (rule recommendations_failed)
next
  assume h: "tmdbId = getTMDbId tmdb (baseId ident) ty \<and> truthy tmdbId
      \<and> fetchWithRetry (detail_endpoint tmdb (mediaType ty) tmdbId) = Inr sourceDetails
      \<and> fetchWithRetry (similar_endpoint tmdb (mediaType ty) tmdbId) = Inl e"
  then have t: "tmdbId = getTMDbId tmdb (baseId ident) ty"
    and tr: "truthy (getTMDbId tmdb (baseId ident) ty)"
    and d: "fetchWithRetry (detail_endpoint tmdb (mediaType ty) (getTMDbId tmdb (baseId ident) ty))
        = Inr sourceDetails"
    and s: "fetchWithRetry (similar_endpoint tmdb (mediaType ty) (getTMDbId tmdb (baseId ident) ty))
        = Inl e"
    by auto
  show "defineStreamHandler env h tmdb ty ident =
        (case allRecommendations [] (getTMDbRecommendations tmdb tmdbId ty) sourceDetails
                (MINIMUM_VOTE_COUNT env) (MAX_RECOMMENDATIONS env) of
           Inl x \<Rightarrow> Inr []
         | Inr recs \<Rightarrow> Inr (map (stream_of h (mediaType ty)) recs))"
    unfolding t handler_resolved_result[OF tr d] similar_failed[OF s] by (rule refl)
next
  assume h: "tmdbId = getTMDbId tmdb (baseId ident) ty \<and> truthy tmdbId
      \<and> fetchWithRetry (detail_endpoint tmdb (mediaType ty) tmdbId) = Inr sourceDetails
      \<and> fetchWithRetry (recommendations_endpoint tmdb (mediaType ty) tmdbId) = Inl e'"
  then have t: "tmdbId = getTMDbId tmdb (baseId ident) ty"
    and tr: "truthy (getTMDbId tmdb (baseId ident) ty)"
    and d: "fetchWithRetry (detail_endpoint tmdb (mediaType ty) (getTMDbId tmdb (baseId ident) ty))
        = Inr sourceDetails"
    and r: "fetchWithRetry
          (recommendations_endpoint tmdb (mediaType ty) (getTMDbId tmdb (baseId ident) ty))
        = Inl e'"
    by auto
  show "defineStreamHandler env h tmdb ty ident =
        (case allRecommendations (getTMDbSimilar tmdb tmdbId ty) [] sourceDetails
                (MINIMUM_VOTE_COUNT env) (MAX_RECOMMENDATIONS env) of
           Inl x \<Rightarrow> Inr []
         | Inr recs \<Rightarrow> Inr (map (stream_of h (mediaType ty)) recs))"
    unfolding t handler_resolved_result[OF tr d] recommendations_failed[OF r] by (rule refl)
next
  assume h: "tmdbId = getTMDbId tmdb (baseId ident) ty
      \<and> fetchWithRetry (similar_endpoint tmdb (mediaType ty) tmdbId) = Inl e
      \<and> fetchWithRetry (recommendations_endpoint tmdb (mediaType ty) tmdbId) = Inl e'"
  then have t: "tmdbId = getTMDbId tmdb (baseId ident) ty"
    and s: "fetchWithRetry (similar_endpoint tmdb (mediaType ty) (getTMDbId tmdb (baseId ident) ty))
        = Inl e"
    and r: "fetchWithRetry
          (recommendations_endpoint tmdb (mediaType ty) (getTMDbId tmdb (baseId ident) ty))
        = Inl e'"
    by auto
  show "defineStreamHandler env h tmdb ty ident = Inr []"
    using similar_failed[OF s] recommendations_failed[OF r] by (rule handler_nothing_fetched)
qed

text \<open>
  Three providers that resolve the identifier and return the source details: the
  similar titles fail and one title is recommended; one title is similar and the
  recommendations fail; both fail.
\<close>

theorem fetcher_failure_gives_empty_source_witness:
  "getTMDbSimilar
       (example_provider example_found (Response 200 (Json (Some example_source))) NetworkFailure
          (example_list [example_item 2 (Number 5) (Number 6) (Number 200)]))
       (Number 603) ''movie'' = []
   \<and> defineStreamHandler example_env example_host
       (example_provider example_found (Response 200 (Json (Some example_source))) NetworkFailure
          (example_list [example_item 2 (Number 5) (Number 6) (Number 200)]))
       ''movie'' ''tt0133093''
     = Inr [stream_of example_host ''movie''
              (with_score (Some example_source) (example_item 2 (Number 5) (Number 6) (Number 200)))]
   \<and> getTMDbRecommendations
       (example_provider example_found (Response 200 (Json (Some example_source)))
          (example_list [example_item 2 (Number 5) (Number 6) (Number 200)]) (Response 503 NotJson))
       (Number 603) ''movie'' = []
   \<and> defineStreamHandler example_env example_host
       (example_provider example_found (Response 200 (Json (Some example_source)))
          (example_list [example_item 2 (Number 5) (Number 6) (Number 200)]) (Response 503 NotJson))
       ''movie'' ''tt0133093''
     = Inr [stream_of example_host ''movie''
              (with_score (Some example_source) (example_item 2 (Number 5) (Number 6) (Number 200)))]
   \<and> defineStreamHandler example_env example_host
       (example_provider example_found (Response 200 (Json (Some example_source))) NetworkFailure (Response 503 NotJson))
       ''movie'' ''tt0133093'' = Inr []"
proof -
  let ?item = "example_item 2 (Number 5) (Number 6) (Number 200)"
  let ?no_similar = "example_provider example_found (Response 200 (Json (Some example_source))) NetworkFailure
      (example_list [?item])"
  let ?no_recommended = "example_provider example_found (Response 200 (Json (Some example_source)))
      (example_list [?item]) (Response 503 NotJson)"
  let ?neither = "example_provider example_found (Response 200 (Json (Some example_source))) NetworkFailure
      (Response 503 NotJson)"
  note thm1 = fetcher_failure_gives_empty_source[of ?no_similar "''movie''" "Number 603"
      NetworkError _ "''tt0133093''" "Some example_source" example_env example_host]
  note thm2 = fetcher_failure_gives_empty_source[of ?no_recommended "''movie''" "Number 603"
      _ "HttpError 503" "''tt0133093''" "Some example_source" example_env example_host]
  note thm3 = fetcher_failure_gives_empty_source[of ?neither "''movie''" "Number 603"
      NetworkError "HttpError 503" "''tt0133093''" _ example_env example_host]
  have s1: "fetchWithRetry (similar_endpoint ?no_similar (mediaType ''movie'') (Number 603))
      = Inl NetworkError"
    by (simp add: example_provider_calls)
  have r1: "Number 603 = getTMDbId ?no_similar (baseId ''tt0133093'') ''movie'' \<and> truthy (Number 603)
      \<and> fetchWithRetry (detail_endpoint ?no_similar (mediaType ''movie'') (Number 603))
         = Inr (Some example_source)"
    by (simp add: example_provider_calls example_found_id)
  have a: "getTMDbSimilar ?no_similar (Number 603) ''movie'' = []"
    using thm1[THEN conjunct1] s1 by (rule mp)
  have "defineStreamHandler example_env example_host ?no_similar ''movie'' ''tt0133093'' =
        (case allRecommendations [] (getTMDbRecommendations ?no_similar (Number 603) ''movie'')
                (Some example_source) (MINIMUM_VOTE_COUNT example_env)
                (MAX_RECOMMENDATIONS example_env) of
           Inl x \<Rightarrow> Inr []
         | Inr recs \<Rightarrow> Inr (map (stream_of example_host (mediaType ''movie'')) recs))"
    using thm1[THEN conjunct2, THEN conjunct2, THEN conjunct1] r1 s1 by blast
  then have b: "defineStreamHandler example_env example_host ?no_similar ''movie'' ''tt0133093''
     = Inr [stream_of example_host ''movie'' (with_score (Some example_source) ?item)]"
    by (simp add: example_list_fetched example_env_values example_one_item mediaType_def)
  have s2: "fetchWithRetry (recommendations_endpoint ?no_recommended (mediaType ''movie'') (Number 603))
      = Inl (HttpError 503)"
    by (simp add: example_provider_calls)
  have r2: "Number 603 = getTMDbId ?no_recommended (baseId ''tt0133093'') ''movie'' \<and> truthy (Number 603)
      \<and> fetchWithRetry (detail_endpoint ?no_recommended (mediaType ''movie'') (Number 603))
         = Inr (Some example_source)"
    by (simp add: example_provider_calls example_found_id)
  have c: "getTMDbRecommendations ?no_recommended (Number 603) ''movie'' = []"
    using thm2[THEN conjunct2, THEN conjunct1] s2 by (rule mp)
  have "defineStreamHandler example_env example_host ?no_recommended ''movie'' ''tt0133093'' =
        (case allRecommendations (getTMDbSimilar ?no_recommended (Number 603) ''movie'') []
                (Some example_source) (MINIMUM_VOTE_COUNT example_env)
                (MAX_RECOMMENDATIONS example_env) of
           Inl x \<Rightarrow> Inr []
         | Inr recs \<Rightarrow> Inr (map (stream_of example_host (mediaType ''movie'')) recs))"
    using thm2[THEN conjunct2, THEN conjunct2, THEN conjunct2, THEN conjunct1] r2 s2 by blast
  then have d: "defineStreamHandler example_env example_host ?no_recommended ''movie'' ''tt0133093''
     = Inr [stream_of example_host ''movie'' (with_score (Some example_source) ?item)]"
    by (simp add: example_list_fetched example_env_values example_one_item mediaType_def)
  have s3: "Number 603 = getTMDbId ?neither (baseId ''tt0133093'') ''movie''
      \<and> fetchWithRetry (similar_endpoint ?neither (mediaType ''movie'') (Number 603)) = Inl NetworkError
      \<and> fetchWithRetry (recommendations_endpoint ?neither (mediaType ''movie'') (Number 603))
         = Inl (HttpError 503)"
    by (simp add: example_provider_calls example_found_id)
  have e: "defineStreamHandler example_env example_host ?neither ''movie'' ''tt0133093'' = Inr []"
    using thm3[THEN conjunct2, THEN conjunct2, THEN conjunct2, THEN conjunct2] s3 by (rule mp)
  from a b c d e show ?thesis by (intro conjI)
qed

section \<open>Properties of the start-up\<close>

lemma TMDB_API_KEY_nonempty: "TMDB_API_KEY env \<noteq> []"
  by (simp add: TMDB_API_KEY_def fallback_key_def split: option.splits)

text \<open>
  C9, as stated, fails twice. With no key in the environment the constant takes the
  built-in fallback, the check \<^verbatim>\<open>!TMDB_API_KEY\<close> does not fire and the process goes on
  to serve. And with a key set, a failure of \<^verbatim>\<open>serveHTTP\<close> ends the process with
  status 1: a second fatal path.
\<close>

theorem startup_missing_key_counterexample:
  "env_TMDB_API_KEY example_env = None
   \<and> startup example_env True = ([], Serving)
   \<and> env_TMDB_API_KEY (example_env\<lparr>env_TMDB_API_KEY := Some ''key''\<rparr>) = Some ''key''
   \<and> startup (example_env\<lparr>env_TMDB_API_KEY := Some ''key''\<rparr>) False
       = ([''Error in Server Startup''], Exited 1)"
  by (simp add: startup_def TMDB_API_KEY_nonempty) (simp add: example_env_def)

text \<open>
  C9, amended: the provider API key is the environment's when it is set and not empty,
  and the built-in development key otherwise, so it is never empty and the start-up
  check of the key never stops the process. The process logs an error and exits with
  status 1 exactly when the HTTP server fails to start; otherwise it serves.
\<close>

theorem startup_fatal_path:
  "TMDB_API_KEY env \<noteq> []
   \<and> (env_TMDB_API_KEY env = None \<or> env_TMDB_API_KEY env = Some [] \<longrightarrow>
        TMDB_API_KEY env = fallback_key)
   \<and> startup env listening =
        (if listening then ([], Serving) else ([''Error in Server Startup''], Exited 1))"
  by (auto simp: startup_def TMDB_API_KEY_nonempty) (auto simp: TMDB_API_KEY_def)

theorem startup_fatal_path_witness:
  "env_TMDB_API_KEY example_env = None
   \<and> TMDB_API_KEY example_env = fallback_key
   \<and> startup example_env False = ([''Error in Server Startup''], Exited 1)
   \<and> startup example_env True = ([], Serving)"
proof -
  have a: "env_TMDB_API_KEY example_env = None" by (simp add: example_env_def)
  from a startup_fatal_path[of example_env False] startup_fatal_path[of example_env True]
  show ?thesis by simp
qed

end
